theory Spec2Isabelle
  imports Complex_Main "HOL-Library.Log_Nat"
begin

section \<open>The result reporter (app/agent.py)\<close>

subsection \<open>The event stream of the agent executor\<close>

text \<open>
  \<^verbatim>\<open>agent_executor.stream({"input": query})\<close> is a generator of chunks (dictionaries).
  The reporter reads three keys of a chunk: \<^verbatim>\<open>"actions"\<close>, \<^verbatim>\<open>"output"\<close> and \<^verbatim>\<open>"agent"\<close>.
  Every dynamic test of the source is kept as a constructor: the value under
  \<^verbatim>\<open>"actions"\<close> may or may not be a list, its first element may or may not be an
  \<^verbatim>\<open>AgentAction\<close>, the value under \<^verbatim>\<open>"agent"\<close> may or may not be an \<^verbatim>\<open>AgentFinish\<close>.
  An \<^verbatim>\<open>AgentFinish\<close> carries \<^verbatim>\<open>return_values.get("output")\<close>: \<open>None\<close> when the key is absent,
  in which case \<^verbatim>\<open>return_values["output"]\<close> raises \<^verbatim>\<open>KeyError\<close>.
  The value under \<^verbatim>\<open>"output"\<close> is the final answer text of the executor, a string.
\<close>

datatype action_obj = AgentAction (tool: string) | OtherObject

datatype actions_value = PyList "action_obj list" | NotAList

datatype agent_value = AgentFinish "string option" | NotAgentFinish

record chunk =
  actions :: "actions_value option"
  chunk_output :: "string option"
  agent :: "agent_value option"

text \<open>
  A generator either is exhausted, yields a chunk and goes on, or raises an exception
  (an instance of \<^verbatim>\<open>Exception\<close>); the string is \<^verbatim>\<open>str(e)\<close>.
\<close>

datatype event_stream = StopIteration | Chunk chunk event_stream | Raises string

subsection \<open>The local variables of the generator\<close>

record reporter_state =
  tool_used :: string
  final_result :: string
  tool_identified :: bool

definition initial_state :: reporter_state where
  "initial_state =
     \<lparr>tool_used = ''llm'',
      final_result = ''An unexpected error occurred or no response from agent.'',
      tool_identified = False\<rparr>"

text \<open>Lines 108 to 119: the \<^verbatim>\<open>"actions"\<close> test of one loop iteration.\<close>

definition observe_actions :: "chunk \<Rightarrow> reporter_state \<Rightarrow> reporter_state" where
  "observe_actions c st =
     (case actions c of
        Some (PyList (agent_action # _)) \<Rightarrow>
          (case agent_action of
             AgentAction tool_used_raw \<Rightarrow>
               if \<not> tool_identified st then
                 st\<lparr>tool_used :=
                      (if tool_used_raw = ''WeatherTool'' then ''weather''
                       else if tool_used_raw = ''MathTool'' then ''math''
                       else if tool_used_raw = ''LLMTool'' then ''llm''
                       else tool_used st),
                    tool_identified := True\<rparr>
               else st
           | OtherObject \<Rightarrow> st)
      | _ \<Rightarrow> st)"

text \<open>
  The \<^verbatim>\<open>for\<close> loop of lines 104 to 132. The result is the exception that left the loop,
  if one did, and the local variables at that moment. A \<^verbatim>\<open>break\<close> leaves the rest of
  the stream unread.
\<close>

fun run_loop :: "event_stream \<Rightarrow> reporter_state \<Rightarrow> string option \<times> reporter_state" where
  "run_loop StopIteration st = (None, st)"
| "run_loop (Raises e) st = (Some e, st)"
| "run_loop (Chunk c rest) st =
     (let st1 = observe_actions c st in
      case chunk_output c of
        Some out \<Rightarrow> (None, st1\<lparr>final_result := out\<rparr>)
      | None \<Rightarrow>
          (case agent c of
             Some (AgentFinish rv) \<Rightarrow>
               (case rv of
                  Some out \<Rightarrow> (None, st1\<lparr>final_result := out\<rparr>)
                | None \<Rightarrow> (Some [CHR 0x27, CHR ''o'', CHR ''u'', CHR ''t'', CHR ''p'', CHR ''u'', CHR ''t'', CHR 0x27], st1))
           | _ \<Rightarrow> run_loop rest st1))"

text \<open>Lines 134 to 137: the handler of \<^verbatim>\<open>except Exception as e\<close>.\<close>

definition handle_exception :: "string option \<times> reporter_state \<Rightarrow> reporter_state" where
  "handle_exception r =
     (case r of
        (None, st) \<Rightarrow> st
      | (Some e, st) \<Rightarrow>
          st\<lparr>final_result := ''An error occurred during agent execution: '' @ e,
             tool_used := ''llm''\<rparr>)"

subsection \<open>The structured response and its serialisation\<close>

record structured_response =
  resp_query :: string
  resp_tool_used :: string
  resp_result :: string

text \<open>
  The dictionary given to \<^verbatim>\<open>json.dumps\<close> at lines 143 to 147. The executor's stream
  method is a parameter: the language model behind it is outside the repository.
\<close>

definition report :: "(string \<Rightarrow> event_stream) \<Rightarrow> string \<Rightarrow> structured_response" where
  "report agent_executor_stream q =
     (let st = handle_exception (run_loop (agent_executor_stream q) initial_state)
      in \<lparr>resp_query = q, resp_tool_used = tool_used st, resp_result = final_result st\<rparr>)"

text \<open>
  \<^verbatim>\<open>json.dumps\<close> with its defaults (\<^verbatim>\<open>ensure_ascii=True\<close>): inside a string, the backslash
  and the double quote are escaped, the characters outside the range from space to
  tilde are written as their short escape or as \<^verbatim>\<open>\u00xx\<close>, everything else is copied.
\<close>

definition hex_digit :: "nat \<Rightarrow> char" where
  "hex_digit n = ''0123456789abcdef'' ! (n mod 16)"

definition json_escape_char :: "char \<Rightarrow> string" where
  "json_escape_char c =
     (if c = CHR 0x5C then [CHR 0x5C, CHR 0x5C]
      else if c = CHR 0x22 then [CHR 0x5C, CHR 0x22]
      else if c = CHR 0x08 then [CHR 0x5C, CHR ''b'']
      else if c = CHR 0x0C then [CHR 0x5C, CHR ''f'']
      else if c = CHR 0x0A then [CHR 0x5C, CHR ''n'']
      else if c = CHR 0x0D then [CHR 0x5C, CHR ''r'']
      else if c = CHR 0x09 then [CHR 0x5C, CHR ''t'']
      else if (of_char c :: nat) < 32 \<or> 126 < (of_char c :: nat) then
        [CHR 0x5C, CHR ''u'', CHR ''0'', CHR ''0'',
         hex_digit ((of_char c :: nat) div 16), hex_digit (of_char c :: nat)]
      else [c])"

definition json_dumps_str :: "string \<Rightarrow> string" where
  "json_dumps_str s = [CHR 0x22] @ concat (map json_escape_char s) @ [CHR 0x22]"

text \<open>A dictionary with string values, in insertion order, separators \<^verbatim>\<open>", "\<close> and \<^verbatim>\<open>": "\<close>.\<close>

fun json_dumps_items :: "(string \<times> string) list \<Rightarrow> string" where
  "json_dumps_items [] = []"
| "json_dumps_items [(k, v)] = json_dumps_str k @ '': '' @ json_dumps_str v"
| "json_dumps_items ((k, v) # kvs) =
     json_dumps_str k @ '': '' @ json_dumps_str v @ '', '' @ json_dumps_items kvs"

definition json_dumps_dict :: "(string \<times> string) list \<Rightarrow> string" where
  "json_dumps_dict kvs = ''{'' @ json_dumps_items kvs @ ''}''"

text \<open>
  The generator \<^verbatim>\<open>process_query_with_agent_streaming\<close>: the list of the values it yields.
  The \<^verbatim>\<open>print\<close> calls write to the console only and are left out.
\<close>

definition process_query_with_agent_streaming ::
    "(string \<Rightarrow> event_stream) \<Rightarrow> string \<Rightarrow> string list" where
  "process_query_with_agent_streaming agent_executor_stream q =
     (let r = report agent_executor_stream q
      in [json_dumps_dict
            [(''query'', resp_query r), (''tool_used'', resp_tool_used r),
             (''result'', resp_result r)]
          @ [CHR 0x0A]])"

subsection \<open>The words of the specification\<close>

text \<open>
  The Action event of a chunk, as the reporter can see it: the first element of a
  non-empty \<^verbatim>\<open>"actions"\<close> list, when it is an \<^verbatim>\<open>AgentAction\<close>.
\<close>

definition spec_action_event :: "chunk \<Rightarrow> string option" where
  "spec_action_event c =
     (case actions c of
        Some (PyList (AgentAction t # _)) \<Rightarrow> Some t
      | _ \<Rightarrow> None)"

text \<open>A chunk carrying a Final Answer: it ends the run.\<close>

definition spec_final_answer :: "chunk \<Rightarrow> bool" where
  "spec_final_answer c =
     (chunk_output c \<noteq> None \<or> (case agent c of Some (AgentFinish _) \<Rightarrow> True | _ \<Rightarrow> False))"

text \<open>The tool name of the first Action event of a run, up to and including its last chunk.\<close>

fun spec_first_action :: "event_stream \<Rightarrow> string option" where
  "spec_first_action StopIteration = None"
| "spec_first_action (Raises e) = None"
| "spec_first_action (Chunk c rest) =
     (case spec_action_event c of
        Some t \<Rightarrow> Some t
      | None \<Rightarrow> if spec_final_answer c then None else spec_first_action rest)"

text \<open>The public tag of a registered tool name.\<close>

definition spec_public_tag :: "string \<Rightarrow> string option" where
  "spec_public_tag t =
     (if t = ''WeatherTool'' then Some ''weather''
      else if t = ''MathTool'' then Some ''math''
      else if t = ''LLMTool'' then Some ''llm''
      else None)"

section \<open>The arithmetic evaluator (app/tools/math\_tool.py)\<close>

subsection \<open>Python floats\<close>

text \<open>
  A Python \<^verbatim>\<open>float\<close> is an IEEE 754 binary64 value. A finite one is the rational number it
  denotes. The sign of a zero is dropped: the evaluator can see it only through a
  division by that zero, which raises for either sign, or in a result that is zero,
  which it returns as the integer 0.
\<close>

datatype pyfloat = Finite rat | PosInf | NegInf | NaN

text \<open>\<open>floor_log2 x\<close> is the integer \<open>e\<close> with \<open>2 powi e \<le> x < 2 powi (e + 1)\<close>, for \<open>0 < x\<close>.\<close>

definition floor_log2 :: "rat \<Rightarrow> int" where
  "floor_log2 x =
     (let (p, q) = quotient_of x; e = bitlen p - bitlen q
      in if 2 powi e \<le> x then e else e - 1)"

definition round_half_even :: "rat \<Rightarrow> int" where
  "round_half_even x =
     (let f = \<lfloor>x\<rfloor>; d = x - of_int f
      in if d < 1 / 2 then f
         else if 1 / 2 < d then f + 1
         else if even f then f else f + 1)"

text \<open>
  Rounding a rational number to binary64, to nearest and ties to even: 53 significant
  bits, the exponent of the last bit at least \<open>-1074\<close> (subnormal numbers), infinity from
  \<open>2 ^ 1024\<close> on.
\<close>

definition round_to_double :: "rat \<Rightarrow> pyfloat" where
  "round_to_double x =
     (if x = 0 then Finite 0
      else
        let a = \<bar>x\<bar>;
            e = max (floor_log2 a) (- 1022);
            ulp = 2 powi (e - 52);
            y = of_int (round_half_even (a / ulp)) * ulp
        in if 2 ^ 1024 \<le> y then (if 0 < x then PosInf else NegInf)
           else Finite (if 0 < x then y else - y))"

subsection \<open>\<^verbatim>\<open>str.strip\<close>, \<^verbatim>\<open>str.split\<close> and \<^verbatim>\<open>float\<close> of a string\<close>

text \<open>
  A string is a list of 8-bit characters, read as the code points 0 to 255. The white
  space of \<^verbatim>\<open>str.isspace\<close> in that range:
\<close>

definition py_isspace :: "char \<Rightarrow> bool" where
  "py_isspace c =
     ((9 \<le> (of_char c :: nat) \<and> (of_char c :: nat) \<le> 13)
      \<or> (28 \<le> (of_char c :: nat) \<and> (of_char c :: nat) \<le> 32)
      \<or> (of_char c :: nat) = 133 \<or> (of_char c :: nat) = 160)"

definition py_strip :: "string \<Rightarrow> string" where
  "py_strip s = rev (dropWhile py_isspace (rev (dropWhile py_isspace s)))"

text \<open>
  \<^verbatim>\<open>str.split()\<close> without a separator: the maximal runs of characters that are not white
  space. The second argument is the run being read.
\<close>

fun split_from :: "string \<Rightarrow> string \<Rightarrow> string list" where
  "split_from [] cur = (if cur = [] then [] else [cur])"
| "split_from (c # cs) cur =
     (if py_isspace c then (if cur = [] then split_from cs [] else cur # split_from cs [])
      else split_from cs (cur @ [c]))"

definition py_split :: "string \<Rightarrow> string list" where
  "py_split s = split_from s []"

definition is_digit :: "char \<Rightarrow> bool" where
  "is_digit c = (48 \<le> (of_char c :: nat) \<and> (of_char c :: nat) \<le> 57)"

definition digits_value :: "string \<Rightarrow> int" where
  "digits_value ds = foldl (\<lambda>a c. 10 * a + ((of_char c :: int) - 48)) 0 ds"

text \<open>
  \<^verbatim>\<open>float\<close> first maps a string with a character above 127 to ASCII: white space to a
  space, anything else to a question mark (no decimal digit lies between 128 and 255).
\<close>

definition to_ascii :: "string \<Rightarrow> string" where
  "to_ascii s =
     (if \<forall>c \<in> set s. (of_char c :: nat) < 128 then s
      else map (\<lambda>c. if (of_char c :: nat) < 128 then c
                     else if py_isspace c then CHR '' '' else CHR ''?'') s)"

text \<open>
  An underscore is accepted between two digits only and is removed. The first argument
  is the character before.
\<close>

fun remove_underscores :: "char \<Rightarrow> string \<Rightarrow> string option" where
  "remove_underscores prev [] = (if prev = CHR ''_'' then None else Some [])"
| "remove_underscores prev (c # cs) =
     (if c = CHR ''_'' then
        (if is_digit prev then remove_underscores c cs else None)
      else if prev = CHR ''_'' \<and> \<not> is_digit c then None
      else map_option ((#) c) (remove_underscores c cs))"

definition ascii_isspace :: "char \<Rightarrow> bool" where
  "ascii_isspace c =
     ((9 \<le> (of_char c :: nat) \<and> (of_char c :: nat) \<le> 13) \<or> (of_char c :: nat) = 32)"

definition parse_sign :: "string \<Rightarrow> bool \<times> string" where
  "parse_sign s =
     (case s of
        [] \<Rightarrow> (False, [])
      | c # cs \<Rightarrow>
          if c = CHR ''-'' then (True, cs)
          else if c = CHR ''+'' then (False, cs)
          else (False, s))"

definition to_lower :: "char \<Rightarrow> char" where
  "to_lower c =
     (if 65 \<le> (of_char c :: nat) \<and> (of_char c :: nat) \<le> 90
      then char_of ((of_char c :: nat) + 32) else c)"

text \<open>The exponent part of a decimal literal: nothing, or \<^verbatim>\<open>e\<close>, a sign and digits.\<close>

definition parse_exponent :: "string \<Rightarrow> int option" where
  "parse_exponent s =
     (case s of
        [] \<Rightarrow> Some 0
      | c # cs \<Rightarrow>
          if c = CHR ''e'' \<or> c = CHR ''E'' then
            (let (neg, ds) = parse_sign cs
             in if ds \<noteq> [] \<and> (\<forall>d \<in> set ds. is_digit d)
                then Some (if neg then - digits_value ds else digits_value ds)
                else None)
          else None)"

text \<open>
  The number a decimal literal denotes: a sign, digits, a point and digits (a digit
  on one side at least), an exponent. \<open>None\<close> when the string is no such literal.
\<close>

definition parse_decimal :: "string \<Rightarrow> rat option" where
  "parse_decimal s =
     (let (neg, r) = parse_sign s;
          ip = takeWhile is_digit r;
          r1 = dropWhile is_digit r;
          (fp, r2) =
            (case r1 of
               [] \<Rightarrow> ([], [])
             | c # cs \<Rightarrow>
                 if c = CHR ''.'' then (takeWhile is_digit cs, dropWhile is_digit cs)
                 else ([], r1))
      in if ip = [] \<and> fp = [] then None
         else
           (case parse_exponent r2 of
              None \<Rightarrow> None
            | Some e \<Rightarrow>
                Some ((if neg then - 1 else 1) * of_int (digits_value (ip @ fp))
                      * 10 powi (e - int (length fp)))))"

definition parse_inf_or_nan :: "string \<Rightarrow> pyfloat option" where
  "parse_inf_or_nan s =
     (let (neg, r) = parse_sign s; l = map to_lower r
      in if l = ''inf'' \<or> l = ''infinity'' then Some (if neg then NegInf else PosInf)
         else if l = ''nan'' then Some NaN
         else None)"

text \<open>
  \<^verbatim>\<open>float(s)\<close> for a string: \<open>None\<close> is \<^verbatim>\<open>ValueError\<close>. A decimal literal is tried first, then
  an infinity or a NaN; the conversion of a literal rounds correctly. (The interpreter
  refuses a literal of more than \<open>10 ^ 9\<close> digits; strings of that length are left out.)
\<close>

definition py_float :: "string \<Rightarrow> pyfloat option" where
  "py_float s =
     (case (if CHR ''_'' \<in> set (to_ascii s) then remove_underscores (CHR 0x00) (to_ascii s)
            else Some (to_ascii s)) of
        None \<Rightarrow> None
      | Some s1 \<Rightarrow>
          (let s2 = rev (dropWhile ascii_isspace (rev (dropWhile ascii_isspace s1)))
           in case parse_decimal s2 of
                Some x \<Rightarrow> Some (round_to_double x)
              | None \<Rightarrow> parse_inf_or_nan s2))"

subsection \<open>Float arithmetic and exceptions\<close>

text \<open>
  The exceptions the \<^verbatim>\<open>try\<close> block can raise, as its handlers tell them apart; the
  last handler reads \<^verbatim>\<open>str(e)\<close>.
\<close>

datatype math_exn = ValueError | ZeroDivisionError | OtherException string

definition float_add :: "pyfloat \<Rightarrow> pyfloat \<Rightarrow> pyfloat" where
  "float_add a b =
     (case (a, b) of
        (Finite x, Finite y) \<Rightarrow> round_to_double (x + y)
      | (NaN, _) \<Rightarrow> NaN
      | (_, NaN) \<Rightarrow> NaN
      | (PosInf, NegInf) \<Rightarrow> NaN
      | (NegInf, PosInf) \<Rightarrow> NaN
      | (PosInf, _) \<Rightarrow> PosInf
      | (NegInf, _) \<Rightarrow> NegInf
      | (_, PosInf) \<Rightarrow> PosInf
      | (_, NegInf) \<Rightarrow> NegInf)"

definition float_neg :: "pyfloat \<Rightarrow> pyfloat" where
  "float_neg a =
     (case a of Finite x \<Rightarrow> Finite (- x) | PosInf \<Rightarrow> NegInf | NegInf \<Rightarrow> PosInf | NaN \<Rightarrow> NaN)"

definition float_sub :: "pyfloat \<Rightarrow> pyfloat \<Rightarrow> pyfloat" where
  "float_sub a b = float_add a (float_neg b)"

text \<open>The sign of a float that is not NaN: \<open>-1\<close>, \<open>0\<close> or \<open>1\<close>.\<close>

definition float_sgn :: "pyfloat \<Rightarrow> int" where
  "float_sgn a =
     (case a of
        Finite x \<Rightarrow> (if x < 0 then - 1 else if x = 0 then 0 else 1)
      | PosInf \<Rightarrow> 1 | NegInf \<Rightarrow> - 1 | NaN \<Rightarrow> 0)"

definition float_mul :: "pyfloat \<Rightarrow> pyfloat \<Rightarrow> pyfloat" where
  "float_mul a b =
     (case (a, b) of
        (Finite x, Finite y) \<Rightarrow> round_to_double (x * y)
      | (NaN, _) \<Rightarrow> NaN
      | (_, NaN) \<Rightarrow> NaN
      | _ \<Rightarrow>
          if float_sgn a * float_sgn b = 0 then NaN
          else if 0 < float_sgn a * float_sgn b then PosInf else NegInf)"

text \<open>\<^verbatim>\<open>operator.truediv\<close> on floats raises when the divisor is a zero, whatever the dividend.\<close>

definition float_truediv :: "pyfloat \<Rightarrow> pyfloat \<Rightarrow> math_exn + pyfloat" where
  "float_truediv a b =
     (if b = Finite 0 then Inl ZeroDivisionError
      else
        case (a, b) of
          (Finite x, Finite y) \<Rightarrow> Inr (round_to_double (x / y))
        | (NaN, _) \<Rightarrow> Inr NaN
        | (_, NaN) \<Rightarrow> Inr NaN
        | (Finite x, _) \<Rightarrow> Inr (Finite 0)
        | (_, Finite y) \<Rightarrow> Inr (if 0 < float_sgn a * float_sgn b then PosInf else NegInf)
        | _ \<Rightarrow> Inr NaN)"

text \<open>\<^verbatim>\<open>int(x)\<close> of a float truncates towards zero and raises on an infinity and on NaN.\<close>

definition float_to_int :: "pyfloat \<Rightarrow> math_exn + int" where
  "float_to_int a =
     (case a of
        Finite x \<Rightarrow> Inr (if 0 \<le> x then \<lfloor>x\<rfloor> else \<lceil>x\<rceil>)
      | NaN \<Rightarrow> Inl ValueError
      | _ \<Rightarrow> Inl (OtherException ''cannot convert float infinity to integer''))"

text \<open>\<^verbatim>\<open>x == n\<close> for a float and an integer compares the exact values.\<close>

definition float_eq_int :: "pyfloat \<Rightarrow> int \<Rightarrow> bool" where
  "float_eq_int a n = (case a of Finite x \<Rightarrow> x = of_int n | _ \<Rightarrow> False)"

subsection \<open>\<^verbatim>\<open>evaluate_math_expression\<close>\<close>

text \<open>The return type \<^verbatim>\<open>Union[int, float, str]\<close>.\<close>

datatype pyvalue = PyInt int | PyFloat pyfloat | PyStr string

text \<open>The dictionary \<^verbatim>\<open>ops\<close> and its \<^verbatim>\<open>get\<close>.\<close>

definition ops :: "string \<Rightarrow> (pyfloat \<Rightarrow> pyfloat \<Rightarrow> math_exn + pyfloat) option" where
  "ops op_char =
     (if op_char = ''+'' then Some (\<lambda>a b. Inr (float_add a b))
      else if op_char = ''-'' then Some (\<lambda>a b. Inr (float_sub a b))
      else if op_char = ''*'' then Some (\<lambda>a b. Inr (float_mul a b))
      else if op_char = ''/'' then Some float_truediv
      else None)"

text \<open>Lines 31 to 45, the body of the \<^verbatim>\<open>try\<close> block, for the three parts.\<close>

definition try_block :: "string \<Rightarrow> string \<Rightarrow> string \<Rightarrow> math_exn + pyvalue" where
  "try_block p0 p1 p2 =
     (case py_float p0 of
        None \<Rightarrow> Inl ValueError
      | Some num1 \<Rightarrow>
          (let op_char = p1 in
           case py_float p2 of
             None \<Rightarrow> Inl ValueError
           | Some num2 \<Rightarrow>
               (case ops op_char of
                  None \<Rightarrow>
                    Inr (PyStr (''Unsupported operator: '' @ [CHR 0x27] @ op_char @ [CHR 0x27]
                                @ ''. Only +, -, *, / are supported.''))
                | Some operation \<Rightarrow>
                    (case operation num1 num2 of
                       Inl e \<Rightarrow> Inl e
                     | Inr result \<Rightarrow>
                         (case float_to_int result of
                            Inl e \<Rightarrow> Inl e
                          | Inr n \<Rightarrow>
                              if float_eq_int result n then Inr (PyInt n)
                              else Inr (PyFloat result))))))"

text \<open>
  The whole function: \<open>Inr\<close> is a returned value, \<open>Inl\<close> an exception that leaves the
  function. The three handlers of lines 46 to 51 follow the \<^verbatim>\<open>try\<close> block.
\<close>

definition evaluate_math_expression :: "string \<Rightarrow> math_exn + pyvalue" where
  "evaluate_math_expression expression =
     (case py_split (py_strip expression) of
        [p0, p1, p2] \<Rightarrow>
          (case try_block p0 p1 p2 of
             Inr v \<Rightarrow> Inr v
           | Inl ValueError \<Rightarrow>
               Inr (PyStr (''Invalid numbers in expression. Please ensure numbers are valid (e.g., ''
                           @ [CHR 0x27] @ ''10'' @ [CHR 0x27] @ '', '' @ [CHR 0x27] @ ''5.5''
                           @ [CHR 0x27] @ '').''))
           | Inl ZeroDivisionError \<Rightarrow> Inr (PyStr ''Division by zero is not allowed.'')
           | Inl (OtherException e) \<Rightarrow>
               Inr (PyStr (''An unexpected error occurred during math evaluation: '' @ e)))
      | _ \<Rightarrow>
          Inr (PyStr (''Invalid math expression format. Expected ''
                      @ [CHR 0x27] @ ''number operator number'' @ [CHR 0x27] @ '' (e.g., ''
                      @ [CHR 0x27] @ ''42 * 7'' @ [CHR 0x27] @ '').'')))"

section \<open>The weather lookup (app/tools/weather.py)\<close>

subsection \<open>Values, requests and responses\<close>

text \<open>The values \<^verbatim>\<open>response.json()\<close> can return; a dictionary keeps its items in order.\<close>

datatype json =
    JNull
  | JBool bool
  | JInt int
  | JFloat pyfloat
  | JStr string
  | JArr "json list"
  | JObj "(string \<times> json) list"

text \<open>
  The exceptions of the \<^verbatim>\<open>try\<close> block, as its two handlers tell them apart: an instance
  of \<^verbatim>\<open>requests.exceptions.RequestException\<close>, or any other \<^verbatim>\<open>Exception\<close>. The string is
  \<^verbatim>\<open>str(e)\<close>.
\<close>

datatype weather_exn = RequestException string | OtherError string

record http_request =
  url :: string
  params :: "(string \<times> string) list"

text \<open>
  What the lookup reads of a \<^verbatim>\<open>requests.Response\<close>: the status line, the final URL,
  and what \<^verbatim>\<open>response.json()\<close> does (it raises when the body is not JSON).
\<close>

record http_response =
  status_code :: int
  reason :: string
  response_url :: string
  response_json :: "weather_exn + json"

definition OPENWEATHER_BASE_URL :: string where
  "OPENWEATHER_BASE_URL = ''http://api.openweathermap.org/data/2.5/weather''"

text \<open>\<^verbatim>\<open>os.getenv("OPENWEATHER_API_KEY", "YOUR_OPENWEATHER_API_KEY")\<close> for an environment.\<close>

definition OPENWEATHER_API_KEY :: "string option \<Rightarrow> string" where
  "OPENWEATHER_API_KEY env_value =
     (case env_value of None \<Rightarrow> ''YOUR_OPENWEATHER_API_KEY'' | Some k \<Rightarrow> k)"

subsection \<open>The operations on values\<close>

definition type_name :: "json \<Rightarrow> string" where
  "type_name v =
     (case v of
        JNull \<Rightarrow> ''NoneType'' | JBool _ \<Rightarrow> ''bool'' | JInt _ \<Rightarrow> ''int'' | JFloat _ \<Rightarrow> ''float''
      | JStr _ \<Rightarrow> ''str'' | JArr _ \<Rightarrow> ''list'' | JObj _ \<Rightarrow> ''dict'')"

text \<open>\<^verbatim>\<open>v.get(key, default)\<close>: only a dictionary has the method.\<close>

definition py_get :: "json \<Rightarrow> string \<Rightarrow> json \<Rightarrow> weather_exn + json" where
  "py_get v key dflt =
     (case v of
        JObj items \<Rightarrow> Inr (case map_of items key of Some x \<Rightarrow> x | None \<Rightarrow> dflt)
      | _ \<Rightarrow>
          Inl (OtherError ([CHR 0x27] @ type_name v @ [CHR 0x27]
                           @ '' object has no attribute '' @ [CHR 0x27] @ ''get'' @ [CHR 0x27])))"

text \<open>\<^verbatim>\<open>v[0]\<close>.\<close>

definition py_index0 :: "json \<Rightarrow> weather_exn + json" where
  "py_index0 v =
     (case v of
        JArr [] \<Rightarrow> Inl (OtherError ''list index out of range'')
      | JArr (x # _) \<Rightarrow> Inr x
      | JStr [] \<Rightarrow> Inl (OtherError ''string index out of range'')
      | JStr (c # _) \<Rightarrow> Inr (JStr [c])
      | JObj _ \<Rightarrow> Inl (OtherError ''0'')
      | _ \<Rightarrow>
          Inl (OtherError ([CHR 0x27] @ type_name v @ [CHR 0x27]
                           @ '' object is not subscriptable'')))"

text \<open>\<^verbatim>\<open>v == 200\<close>: an integer and a float are compared by value.\<close>

definition eq_200 :: "json \<Rightarrow> bool" where
  "eq_200 v = (v = JInt 200 \<or> v = JFloat (Finite 200))"

text \<open>
  A value inside an f-string is formatted by \<^verbatim>\<open>str\<close>: a string stands for itself, and
  for every other value \<^verbatim>\<open>str\<close> is \<^verbatim>\<open>repr\<close>, which is a parameter here.
\<close>

definition py_str :: "(json \<Rightarrow> string) \<Rightarrow> json \<Rightarrow> string" where
  "py_str repr v = (case v of JStr s \<Rightarrow> s | _ \<Rightarrow> repr v)"

function show_nat :: "nat \<Rightarrow> string" where
  "show_nat n =
     (if n < 10 then [char_of (48 + n)]
      else show_nat (n div 10) @ [char_of (48 + n mod 10)])"
  by pat_completeness auto
termination
  by (relation "measure id") auto

definition show_int :: "int \<Rightarrow> string" where
  "show_int i = (if i < 0 then ''-'' @ show_nat (nat (- i)) else show_nat (nat i))"

text \<open>\<^verbatim>\<open>response.raise_for_status()\<close>: the exception it raises, if any.\<close>

definition raise_for_status :: "http_response \<Rightarrow> weather_exn option" where
  "raise_for_status response =
     (if 400 \<le> status_code response \<and> status_code response < 500 then
        Some (RequestException
                (show_int (status_code response) @ '' Client Error: '' @ reason response
                 @ '' for url: '' @ response_url response))
      else if 500 \<le> status_code response \<and> status_code response < 600 then
        Some (RequestException
                (show_int (status_code response) @ '' Server Error: '' @ reason response
                 @ '' for url: '' @ response_url response))
      else None)"

subsection \<open>\<^verbatim>\<open>get_weather\<close>\<close>

text \<open>Lines 36 to 50: what is done with the decoded body.\<close>

definition describe_weather :: "(json \<Rightarrow> string) \<Rightarrow> string \<Rightarrow> json \<Rightarrow> weather_exn + string" where
  "describe_weather repr location data =
     (case py_get data ''cod'' JNull of
        Inl e \<Rightarrow> Inl e
      | Inr cod \<Rightarrow>
          if eq_200 cod then
            (case py_get data ''main'' (JObj []) of
               Inl e \<Rightarrow> Inl e
             | Inr main_data \<Rightarrow>
            (case py_get data ''weather'' (JArr [JObj []]) of
               Inl e \<Rightarrow> Inl e
             | Inr weather_list \<Rightarrow>
            (case py_index0 weather_list of
               Inl e \<Rightarrow> Inl e
             | Inr weather0 \<Rightarrow>
            (case py_get weather0 ''description'' (JStr ''unknown'') of
               Inl e \<Rightarrow> Inl e
             | Inr weather_description \<Rightarrow>
            (case py_get main_data ''temp'' JNull of
               Inl e \<Rightarrow> Inl e
             | Inr temperature \<Rightarrow>
            (case py_get data ''name'' JNull of
               Inl e \<Rightarrow> Inl e
             | Inr city_name \<Rightarrow>
            (case py_get data ''sys'' (JObj []) of
               Inl e \<Rightarrow> Inl e
             | Inr sys \<Rightarrow>
            (case py_get sys ''country'' JNull of
               Inl e \<Rightarrow> Inl e
             | Inr country \<Rightarrow>
                 if temperature \<noteq> JNull then
                   Inr (''It'' @ [CHR 0x27] @ ''s '' @ py_str repr temperature @ [CHR 0xB0]
                        @ ''C and '' @ py_str repr weather_description @ '' in ''
                        @ py_str repr city_name @ '', '' @ py_str repr country @ ''.'')
                 else
                   Inr (''Weather data available for '' @ py_str repr city_name @ '', ''
                        @ py_str repr country @ '', but temperature is missing.'')))))))))
          else
            (case py_get data ''message'' (JStr ''Unknown error from API'') of
               Inl e \<Rightarrow> Inl e
             | Inr message \<Rightarrow>
                 Inr (''Could not retrieve weather for '' @ location @ '': ''
                      @ py_str repr message)))"

text \<open>
  Lines 32 to 50, the body of the \<^verbatim>\<open>try\<close> block. \<open>requests_get\<close> is the network: it
  answers a request with a response or raises.
\<close>

definition weather_try_block ::
    "(json \<Rightarrow> string) \<Rightarrow> (http_request \<Rightarrow> weather_exn + http_response) \<Rightarrow> string
     \<Rightarrow> http_request \<Rightarrow> weather_exn + string" where
  "weather_try_block repr requests_get location request =
     (case requests_get request of
        Inl e \<Rightarrow> Inl e
      | Inr response \<Rightarrow>
          (case raise_for_status response of
             Some e \<Rightarrow> Inl e
           | None \<Rightarrow>
               (case response_json response of
                  Inl e \<Rightarrow> Inl e
                | Inr data \<Rightarrow> describe_weather repr location data)))"

text \<open>
  The whole function. The argument is \<open>None\<close> when the caller gives no location. The
  result is what the function returns (\<open>Inr\<close>) or the exception that leaves it (\<open>Inl\<close>),
  and the list of the requests sent to the network.
\<close>

definition get_weather ::
    "(json \<Rightarrow> string) \<Rightarrow> (http_request \<Rightarrow> weather_exn + http_response) \<Rightarrow> string option
     \<Rightarrow> string option \<Rightarrow> (weather_exn + string) \<times> http_request list" where
  "get_weather repr requests_get env_value location_arg =
     (let location = (case location_arg of None \<Rightarrow> ''Chicago'' | Some l \<Rightarrow> l);
          key = OPENWEATHER_API_KEY env_value
      in if key = [] \<or> key = ''YOUR_OPENWEATHER_API_KEY'' then
           (Inr ''Weather API key not configured. Please set OPENWEATHER_API_KEY in your environment.'',
            [])
         else
           (let request =
                  \<lparr>url = OPENWEATHER_BASE_URL,
                   params = [(''q'', location), (''appid'', key), (''units'', ''metric'')]\<rparr>
            in (case weather_try_block repr requests_get location request of
                  Inr text \<Rightarrow> Inr text
                | Inl (RequestException e) \<Rightarrow>
                    Inr (''Error fetching weather for '' @ location
                         @ '': A network error occurred: '' @ e)
                | Inl (OtherError e) \<Rightarrow>
                    Inr (''An unexpected error occurred while processing weather data: '' @ e),
                [request])))"

section \<open>Concrete runs\<close>

text \<open>A chunk with one Action event, a chunk with an observation only, a chunk with the Final Answer.\<close>

definition action_chunk :: "string \<Rightarrow> chunk" where
  "action_chunk t = \<lparr>actions = Some (PyList [AgentAction t]), chunk_output = None, agent = None\<rparr>"

definition steps_chunk :: chunk where
  "steps_chunk = \<lparr>actions = None, chunk_output = None, agent = None\<rparr>"

definition output_chunk :: "string \<Rightarrow> chunk" where
  "output_chunk out = \<lparr>actions = None, chunk_output = Some out, agent = None\<rparr>"

text \<open>An executor that picks the arithmetic tool and whose model client then fails.\<close>

definition math_then_failure :: "string \<Rightarrow> event_stream" where
  "math_then_failure q = Chunk (action_chunk ''MathTool'') (Raises ''model client failed'')"

text \<open>An executor that picks the weather tool, observes its result, and then fails.\<close>

definition weather_then_failure :: "string \<Rightarrow> event_stream" where
  "weather_then_failure q =
     Chunk (action_chunk ''WeatherTool'') (Chunk steps_chunk (Raises ''iteration limit''))"

text \<open>An executor that picks the weather tool, then the arithmetic tool, and answers.\<close>

definition weather_math_answer :: "string \<Rightarrow> event_stream" where
  "weather_math_answer q =
     Chunk (action_chunk ''WeatherTool'')
       (Chunk steps_chunk
          (Chunk (action_chunk ''MathTool'')
             (Chunk steps_chunk (Chunk (output_chunk ''It is 21 degrees.'') StopIteration))))"

text \<open>An executor whose first action names no registered tool and whose second one does.\<close>

definition unknown_then_weather :: "string \<Rightarrow> event_stream" where
  "unknown_then_weather q =
     Chunk (action_chunk ''SearchTool'')
       (Chunk steps_chunk
          (Chunk (action_chunk ''WeatherTool'')
             (Chunk steps_chunk (Chunk (output_chunk ''Sunny.'') StopIteration))))"

subsection \<open>The weather provider: the words of the specification and concrete networks\<close>

text \<open>The provider's message: the string under \<^verbatim>\<open>"message"\<close> in the body of a response.\<close>

definition spec_provider_message :: "http_response \<Rightarrow> string option" where
  "spec_provider_message response =
     (case response_json response of
        Inr (JObj items) \<Rightarrow> (case map_of items ''message'' of Some (JStr m) \<Rightarrow> Some m | _ \<Rightarrow> None)
      | _ \<Rightarrow> None)"

text \<open>A text incorporates a message when the message occurs in it, as one piece.\<close>

fun spec_incorporates :: "string \<Rightarrow> string \<Rightarrow> bool" where
  "spec_incorporates m [] = (m = [])"
| "spec_incorporates m (c # cs) = (take (length m) (c # cs) = m \<or> spec_incorporates m cs)"

text \<open>A network that is down, and a \<^verbatim>\<open>repr\<close> that is never asked anything of interest.\<close>

definition offline :: "http_request \<Rightarrow> weather_exn + http_response" where
  "offline request = Inl (RequestException ''connection refused'')"

definition plain_repr :: "json \<Rightarrow> string" where
  "plain_repr v = ''?''"

text \<open>The provider's answer for a city it does not know: status 404 and a JSON body.\<close>

definition not_found_response :: http_response where
  "not_found_response =
     \<lparr>status_code = 404,
      reason = ''Not Found'',
      response_url = ''http://api.openweathermap.org/data/2.5/weather?q=Atlantis&appid=secret&units=metric'',
      response_json = Inr (JObj [(''cod'', JStr ''404''), (''message'', JStr ''city not found'')])\<rparr>"

definition provider_not_found :: "http_request \<Rightarrow> weather_exn + http_response" where
  "provider_not_found request = Inr not_found_response"

text \<open>The same body under status 200.\<close>

definition provider_error_code :: "http_request \<Rightarrow> weather_exn + http_response" where
  "provider_error_code request = Inr (not_found_response\<lparr>status_code := 200, reason := ''OK''\<rparr>)"

subsection \<open>The arithmetic evaluator: the words of the specification\<close>

text \<open>The exact mathematical result of applying an operator to two numbers.\<close>

definition spec_apply :: "string \<Rightarrow> rat \<Rightarrow> rat \<Rightarrow> rat" where
  "spec_apply op_char x y =
     (if op_char = ''+'' then x + y
      else if op_char = ''-'' then x - y
      else if op_char = ''*'' then x * y
      else x / y)"

text \<open>A number as a result: an integer when it has no fractional part, a float otherwise.\<close>

definition spec_typed :: "rat \<Rightarrow> pyvalue" where
  "spec_typed r = (if of_int \<lfloor>r\<rfloor> = r then PyInt \<lfloor>r\<rfloor> else PyFloat (Finite r))"

text \<open>The error strings of the evaluator.\<close>

abbreviation invalid_format_message :: string where
  "invalid_format_message \<equiv>
     ''Invalid math expression format. Expected ''
     @ [CHR 0x27] @ ''number operator number'' @ [CHR 0x27] @ '' (e.g., ''
     @ [CHR 0x27] @ ''42 * 7'' @ [CHR 0x27] @ '').''"

abbreviation invalid_numbers_message :: string where
  "invalid_numbers_message \<equiv>
     ''Invalid numbers in expression. Please ensure numbers are valid (e.g., ''
     @ [CHR 0x27] @ ''10'' @ [CHR 0x27] @ '', '' @ [CHR 0x27] @ ''5.5''
     @ [CHR 0x27] @ '').''"

abbreviation unsupported_operator_message :: "string \<Rightarrow> string" where
  "unsupported_operator_message op_char \<equiv>
     ''Unsupported operator: '' @ [CHR 0x27] @ op_char @ [CHR 0x27]
     @ ''. Only +, -, *, / are supported.''"

subsection \<open>The words of the specification: reading a JSON object\<close>

text \<open>
  A reader of JSON text, written from the JSON grammar and not from the serialiser: it
  is what a client does with the line it receives. Text is first cut into tokens: a
  string literal, decoded, or a single character outside string literals; white space
  between tokens is dropped.
\<close>

datatype json_token = TStr string | TChar char

text \<open>
  Where the scanner is: outside a string literal, inside one, after a backslash, or
  inside a \<^verbatim>\<open>\u\<close> escape with some hexadecimal digits still to read and the value read so far.
\<close>

datatype scan_mode = Outside | Inside | Escaped | Hex nat nat

definition spec_unescape :: "char \<Rightarrow> char option" where
  "spec_unescape c =
     (if c = CHR 0x22 then Some (CHR 0x22)
      else if c = CHR 0x5C then Some (CHR 0x5C)
      else if c = CHR ''/'' then Some (CHR ''/'')
      else if c = CHR ''b'' then Some (CHR 0x08)
      else if c = CHR ''f'' then Some (CHR 0x0C)
      else if c = CHR ''n'' then Some (CHR 0x0A)
      else if c = CHR ''r'' then Some (CHR 0x0D)
      else if c = CHR ''t'' then Some (CHR 0x09)
      else None)"

definition spec_hex_value :: "char \<Rightarrow> nat option" where
  "spec_hex_value c =
     (if 48 \<le> (of_char c :: nat) \<and> (of_char c :: nat) \<le> 57 then Some ((of_char c :: nat) - 48)
      else if 97 \<le> (of_char c :: nat) \<and> (of_char c :: nat) \<le> 102 then Some ((of_char c :: nat) - 87)
      else if 65 \<le> (of_char c :: nat) \<and> (of_char c :: nat) \<le> 70 then Some ((of_char c :: nat) - 55)
      else None)"

definition spec_json_space :: "char \<Rightarrow> bool" where
  "spec_json_space c = (c = CHR '' '' \<or> c = CHR 0x09 \<or> c = CHR 0x0A \<or> c = CHR 0x0D)"

text \<open>
  The second argument is the part of the string literal decoded so far. A control
  character inside a string literal, an unknown escape, a code point above 255 and an
  unfinished literal make the text unreadable.
\<close>

fun spec_scan :: "scan_mode \<Rightarrow> string \<Rightarrow> string \<Rightarrow> json_token list option" where
  "spec_scan Outside cur [] = Some []"
| "spec_scan Inside cur [] = None"
| "spec_scan Escaped cur [] = None"
| "spec_scan (Hex n v) cur [] = None"
| "spec_scan Outside cur (c # cs) =
     (if c = CHR 0x22 then spec_scan Inside [] cs
      else if spec_json_space c then spec_scan Outside [] cs
      else map_option ((#) (TChar c)) (spec_scan Outside [] cs))"
| "spec_scan Inside cur (c # cs) =
     (if c = CHR 0x22 then map_option ((#) (TStr cur)) (spec_scan Outside [] cs)
      else if c = CHR 0x5C then spec_scan Escaped cur cs
      else if (of_char c :: nat) < 32 then None
      else spec_scan Inside (cur @ [c]) cs)"
| "spec_scan Escaped cur (c # cs) =
     (if c = CHR ''u'' then spec_scan (Hex 4 0) cur cs
      else case spec_unescape c of
             None \<Rightarrow> None
           | Some d \<Rightarrow> spec_scan Inside (cur @ [d]) cs)"
| "spec_scan (Hex n v) cur (c # cs) =
     (case spec_hex_value c of
        None \<Rightarrow> None
      | Some h \<Rightarrow>
          if n \<le> 1 then
            (if 16 * v + h < 256 then spec_scan Inside (cur @ [char_of (16 * v + h)]) cs
             else None)
          else spec_scan (Hex (n - 1) (16 * v + h)) cur cs)"

text \<open>
  The members of an object after its opening brace, all with string values: a name, a
  colon, a value, then a comma and more members or the closing brace and nothing else.
\<close>

fun spec_members :: "json_token list \<Rightarrow> (string \<times> string) list option" where
  "spec_members (TStr k # TChar a # TStr v # TChar b # rest) =
     (if a = CHR '':'' then
        (if b = CHR ''}'' then (if rest = [] then Some [(k, v)] else None)
         else if b = CHR '','' then map_option ((#) (k, v)) (spec_members rest)
         else None)
      else None)"
| "spec_members _ = None"

text \<open>A JSON text that is one object with string values: its members, in order.\<close>

definition spec_json_loads :: "string \<Rightarrow> (string \<times> string) list option" where
  "spec_json_loads text =
     (case spec_scan Outside [] text of
        Some (TChar c # tokens) \<Rightarrow> if c = CHR ''{'' then spec_members tokens else None
      | _ \<Rightarrow> None)"

section \<open>Properties of the result reporter\<close>

lemma observe_actions_tool_used:
  "tool_used (observe_actions c st) =
     (if tool_identified st then tool_used st
      else case spec_action_event c of
             None \<Rightarrow> tool_used st
           | Some t \<Rightarrow> (case spec_public_tag t of Some g \<Rightarrow> g | None \<Rightarrow> tool_used st))"
  by (simp add: observe_actions_def spec_action_event_def spec_public_tag_def
           split: option.split actions_value.split list.split action_obj.split)

lemma observe_actions_identified:
  "tool_identified (observe_actions c st) = (tool_identified st \<or> spec_action_event c \<noteq> None)"
  by (simp add: observe_actions_def spec_action_event_def
           split: option.split actions_value.split list.split action_obj.split)

lemma run_loop_tool_used:
  "tool_used (snd (run_loop s st)) =
     (if tool_identified st then tool_used st
      else case spec_first_action s of
             None \<Rightarrow> tool_used st
           | Some t \<Rightarrow> (case spec_public_tag t of Some g \<Rightarrow> g | None \<Rightarrow> tool_used st))"
proof (induction s arbitrary: st)
  case StopIteration
  show ?case by simp
next
  case (Raises e)
  show ?case by simp
next
  case (Chunk c rest)
  show ?case
    by (simp add: Chunk.IH observe_actions_tool_used observe_actions_identified
          spec_final_answer_def Let_def
          split: option.split agent_value.split)
qed

lemma run_loop_identified:
  "tool_identified (snd (run_loop s st)) = (tool_identified st \<or> spec_first_action s \<noteq> None)"
proof (induction s arbitrary: st)
  case (Chunk c rest)
  show ?case
    by (auto simp add: Chunk.IH observe_actions_identified spec_final_answer_def Let_def
          split: option.split agent_value.split)
qed simp_all

lemma report_tool_used:
  "resp_tool_used (report ex q) =
     (case fst (run_loop (ex q) initial_state) of
        Some e \<Rightarrow> ''llm''
      | None \<Rightarrow> tool_used (snd (run_loop (ex q) initial_state)))"
  by (simp add: report_def handle_exception_def Let_def split: prod.split option.split)

lemma report_result:
  "resp_result (report ex q) =
     (case fst (run_loop (ex q) initial_state) of
        Some e \<Rightarrow> ''An error occurred during agent execution: '' @ e
      | None \<Rightarrow> final_result (snd (run_loop (ex q) initial_state)))"
  by (simp add: report_def handle_exception_def Let_def split: prod.split option.split)

lemma public_tag_cases:
  "spec_public_tag t = Some g \<Longrightarrow> g = ''weather'' \<or> g = ''math'' \<or> g = ''llm''"
  by (auto simp: spec_public_tag_def split: if_splits)

lemma report_tool_used_tag:
  "resp_tool_used (report ex q) = ''weather'' \<or> resp_tool_used (report ex q) = ''math''
   \<or> resp_tool_used (report ex q) = ''llm''"
proof (cases "fst (run_loop (ex q) initial_state)")
  case (Some e)
  then show ?thesis by (simp add: report_tool_used)
next
  case None
  show ?thesis
  proof (cases "spec_first_action (ex q)")
    case n: None
    with None show ?thesis
      by (simp add: report_tool_used run_loop_tool_used initial_state_def)
  next
    case (Some t)
    show ?thesis
    proof (cases "spec_public_tag t")
      case n: None
      with None Some show ?thesis
        by (simp add: report_tool_used run_loop_tool_used initial_state_def)
    next
      case (Some g)
      with None \<open>spec_first_action (ex q) = Some t\<close> public_tag_cases [OF Some] show ?thesis
        by (auto simp add: report_tool_used run_loop_tool_used initial_state_def)
    qed
  qed
qed

text \<open>
  C1, as stated, at a run where the arithmetic tool is picked and the model client then
  fails: the first Action event names MathTool, whose public tag is "math", and the
  response says "llm".
\<close>

theorem first_action_tag_counterexample:
  "spec_first_action (math_then_failure ''2 + 2'') = Some ''MathTool''
   \<and> spec_public_tag ''MathTool'' = Some ''math''
   \<and> resp_tool_used (report math_then_failure ''2 + 2'') \<noteq> ''math''"
  by (simp add: math_then_failure_def action_chunk_def spec_action_event_def
        spec_public_tag_def report_tool_used)

text \<open>
  C1, amended: for every run that no exception ends, \<open>tool_used\<close> is the public tag of the
  tool name of the first Action event read before the run ends, "llm" when that name is
  not a registered one or when there is no such event; and once a tool is identified,
  nothing the loop reads afterwards changes \<open>tool_used\<close>.
\<close>

theorem first_action_tag:
  "(fst (run_loop (ex q) initial_state) = None \<longrightarrow>
      resp_tool_used (report ex q) =
        (case spec_first_action (ex q) of
           None \<Rightarrow> ''llm''
         | Some t \<Rightarrow> (case spec_public_tag t of Some g \<Rightarrow> g | None \<Rightarrow> ''llm'')))
   \<and> (tool_identified st \<longrightarrow> tool_used (snd (run_loop s st)) = tool_used st)"
  by (simp add: report_tool_used run_loop_tool_used initial_state_def split: option.split)

theorem first_action_tag_witness:
  "fst (run_loop (weather_math_answer ''weather in Paris plus 2'') initial_state) = None
   \<and> resp_tool_used (report weather_math_answer ''weather in Paris plus 2'') = ''weather''
   \<and> tool_identified (observe_actions (action_chunk ''WeatherTool'') initial_state)
   \<and> tool_used (snd (run_loop (Chunk (action_chunk ''MathTool'') StopIteration)
                     (observe_actions (action_chunk ''WeatherTool'') initial_state)))
       = ''weather''"
  using first_action_tag [of weather_math_answer "''weather in Paris plus 2''"
          "observe_actions (action_chunk ''WeatherTool'') initial_state"
          "Chunk (action_chunk ''MathTool'') StopIteration"]
  by (simp add: weather_math_answer_def action_chunk_def steps_chunk_def output_chunk_def
        spec_action_event_def spec_final_answer_def spec_public_tag_def observe_actions_def
        initial_state_def)

text \<open>
  C2, as stated, at a run where the weather tool is picked and the loop then fails: when
  the exception occurs \<open>tool_used\<close> holds "weather", and the response says "llm".
\<close>

theorem error_keeps_tool_counterexample:
  "fst (run_loop (weather_then_failure ''weather in Paris'') initial_state) = Some ''iteration limit''
   \<and> tool_used (snd (run_loop (weather_then_failure ''weather in Paris'') initial_state)) = ''weather''
   \<and> resp_tool_used (report weather_then_failure ''weather in Paris'') = ''llm''"
  by (simp add: weather_then_failure_def action_chunk_def steps_chunk_def observe_actions_def
        initial_state_def report_tool_used)

text \<open>
  C2, amended: for every query whose loop raises an exception before a Final Answer, the
  result of the response is "An error occurred during agent execution: " followed by
  the description of the exception, which is not empty, and \<open>tool_used\<close> is "llm",
  whatever tool an earlier Action event had set.
\<close>

theorem error_response:
  "run_loop (ex q) initial_state = (Some e, st) \<Longrightarrow>
     resp_result (report ex q) = ''An error occurred during agent execution: '' @ e
     \<and> resp_result (report ex q) \<noteq> []
     \<and> resp_tool_used (report ex q) = ''llm''"
  by (simp add: report_tool_used report_result)

theorem error_response_witness:
  "run_loop (math_then_failure ''2 + 2'') initial_state
     = (Some ''model client failed'',
        \<lparr>tool_used = ''math'',
         final_result = ''An unexpected error occurred or no response from agent.'',
         tool_identified = True\<rparr>)
   \<and> resp_result (report math_then_failure ''2 + 2'')
       = ''An error occurred during agent execution: model client failed''
   \<and> resp_tool_used (report math_then_failure ''2 + 2'') = ''llm''"
proof -
  have run: "run_loop (math_then_failure ''2 + 2'') initial_state
     = (Some ''model client failed'',
        \<lparr>tool_used = ''math'',
         final_result = ''An unexpected error occurred or no response from agent.'',
         tool_identified = True\<rparr>)"
    by (simp add: math_then_failure_def action_chunk_def observe_actions_def initial_state_def)
  from error_response [of math_then_failure "''2 + 2''", OF run] run show ?thesis by simp
qed

text \<open>
  C10: when the first Action event of a run names a tool outside WeatherTool, MathTool
  and LLMTool, the reporter marks the tool as identified and leaves \<open>tool_used\<close> at "llm",
  so the response says "llm" whatever a later Action event names.
\<close>

theorem unknown_first_tool:
  "spec_first_action (ex q) = Some t \<Longrightarrow>
   t \<noteq> ''WeatherTool'' \<Longrightarrow> t \<noteq> ''MathTool'' \<Longrightarrow> t \<noteq> ''LLMTool'' \<Longrightarrow>
     tool_identified (snd (run_loop (ex q) initial_state))
     \<and> tool_used (snd (run_loop (ex q) initial_state)) = ''llm''
     \<and> resp_tool_used (report ex q) = ''llm''"
  by (simp add: report_tool_used run_loop_tool_used run_loop_identified initial_state_def
        spec_public_tag_def split: option.split)

theorem unknown_first_tool_witness:
  "spec_first_action (unknown_then_weather ''find it'') = Some ''SearchTool''
   \<and> tool_identified (snd (run_loop (unknown_then_weather ''find it'') initial_state))
   \<and> resp_tool_used (report unknown_then_weather ''find it'') = ''llm''"
proof -
  have first: "spec_first_action (unknown_then_weather ''find it'') = Some ''SearchTool''"
    by (simp add: unknown_then_weather_def action_chunk_def spec_action_event_def)
  from unknown_first_tool [of unknown_then_weather "''find it''", OF first] first
  show ?thesis by simp
qed

lemma hex_digit_not_newline: "hex_digit n \<noteq> CHR 0x0A"
proof -
  have "n mod 16 < length ''0123456789abcdef''" by simp
  then have "''0123456789abcdef'' ! (n mod 16) \<in> set ''0123456789abcdef''"
    by (rule nth_mem)
  then show ?thesis unfolding hex_digit_def by auto
qed

lemma json_escape_char_no_newline: "CHR 0x0A \<notin> set (json_escape_char c)"
  using hex_digit_not_newline [of "of_char c div 16"] hex_digit_not_newline [of "of_char c"]
  by (auto simp add: json_escape_char_def)

lemma json_dumps_str_no_newline: "CHR 0x0A \<notin> set (json_dumps_str s)"
  by (simp add: json_dumps_str_def json_escape_char_no_newline)

lemma json_dumps_items_no_newline: "CHR 0x0A \<notin> set (json_dumps_items kvs)"
  by (induction kvs rule: json_dumps_items.induct) (simp_all add: json_dumps_str_no_newline)

lemma json_dumps_dict_no_newline: "CHR 0x0A \<notin> set (json_dumps_dict kvs)"
  by (simp add: json_dumps_dict_def json_dumps_items_no_newline)

lemma report_query: "resp_query (report ex q) = q"
  by (simp add: report_def Let_def)

lemma hex_value_hex_digit: "spec_hex_value (hex_digit k) = Some (k mod 16)"
proof -
  define m where "m = k mod 16"
  have "m < 16" by (simp add: m_def)
  then have "m = 0 \<or> m = 1 \<or> m = 2 \<or> m = 3 \<or> m = 4 \<or> m = 5 \<or> m = 6 \<or> m = 7
      \<or> m = 8 \<or> m = 9 \<or> m = 10 \<or> m = 11 \<or> m = 12 \<or> m = 13 \<or> m = 14 \<or> m = 15"
    by arith
  then have "spec_hex_value (''0123456789abcdef'' ! m) = Some m"
    by (elim disjE) (simp_all add: spec_hex_value_def)
  then show ?thesis by (simp add: hex_digit_def m_def)
qed

lemma scan_unicode_escape:
  "spec_scan Inside cur
     ([CHR 0x5C, CHR ''u'', CHR ''0'', CHR ''0'',
       hex_digit ((of_char c :: nat) div 16), hex_digit (of_char c :: nat)] @ rest)
   = spec_scan Inside (cur @ [c]) rest"
proof -
  define n where "n = (of_char c :: nat)"
  have n: "n < 256" by (simp add: n_def)
  have h1: "spec_hex_value (hex_digit (n div 16)) = Some (n div 16)"
    using n by (simp add: hex_value_hex_digit)
  have h2: "spec_hex_value (hex_digit n) = Some (n mod 16)"
    by (rule hex_value_hex_digit)
  have z: "spec_hex_value (CHR ''0'') = Some 0"
    by (simp add: spec_hex_value_def)
  have v: "16 * (n div 16) + n mod 16 = n" by simp
  have c: "char_of n = c" by (simp add: n_def)
  have "spec_scan Inside cur
     ([CHR 0x5C, CHR ''u'', CHR ''0'', CHR ''0'', hex_digit (n div 16), hex_digit n] @ rest)
     = spec_scan (Hex 2 0) cur ([hex_digit (n div 16), hex_digit n] @ rest)"
    by (simp add: z)
  also have "\<dots> = spec_scan (Hex 1 (n div 16)) cur ([hex_digit n] @ rest)"
    by (simp add: h1)
  also have "\<dots> = spec_scan Inside (cur @ [char_of n]) rest"
    using n by (simp add: h2 v)
  finally show ?thesis by (simp add: c n_def [symmetric])
qed

lemma scan_escape_char:
  "spec_scan Inside cur (json_escape_char c @ rest) = spec_scan Inside (cur @ [c]) rest"
proof (cases "(of_char c :: nat) < 32 \<or> 126 < (of_char c :: nat)")
  case True
  show ?thesis
    using True scan_unicode_escape [of cur c rest]
    by (auto simp add: json_escape_char_def spec_unescape_def)
next
  case False
  then show ?thesis
    by (auto simp add: json_escape_char_def spec_unescape_def)
qed

lemma scan_string:
  "spec_scan Inside cur (concat (map json_escape_char s) @ CHR 0x22 # rest)
   = map_option ((#) (TStr (cur @ s))) (spec_scan Outside [] rest)"
proof (induction s arbitrary: cur)
  case Nil
  show ?case by simp
next
  case (Cons c s)
  show ?case
    using scan_escape_char [of cur c "concat (map json_escape_char s) @ CHR 0x22 # rest"]
    by (simp add: Cons.IH)
qed

lemma scan_dumps_str:
  "spec_scan Outside cur (json_dumps_str s @ rest)
   = map_option ((#) (TStr s)) (spec_scan Outside [] rest)"
  using scan_string [of "[]" s rest] by (simp add: json_dumps_str_def)

lemma scan_pair:
  "spec_scan Outside cur (json_dumps_str k @ '': '' @ json_dumps_str v @ rest)
   = map_option (\<lambda>t. TStr k # TChar CHR '':'' # TStr v # t) (spec_scan Outside [] rest)"
  by (simp add: scan_dumps_str spec_json_space_def option.map_comp comp_def)

lemma loads_items:
  "kvs \<noteq> [] \<Longrightarrow>
     Option.bind (spec_scan Outside cur (json_dumps_items kvs @ ''}'')) spec_members = Some kvs"
proof (induction kvs arbitrary: cur rule: json_dumps_items.induct)
  case 1
  then show ?case by simp
next
  case (2 k v)
  show ?case
    using scan_pair [of cur k v "''}''"] by (simp add: spec_json_space_def)
next
  case (3 k v kv kvs)
  have "spec_scan Outside cur (json_dumps_items ((k, v) # kv # kvs) @ ''}'')
      = map_option (\<lambda>t. TStr k # TChar CHR '':'' # TStr v # TChar CHR '','' # t)
          (spec_scan Outside [] (json_dumps_items (kv # kvs) @ ''}''))"
    using scan_pair [of cur k v "'', '' @ json_dumps_items (kv # kvs) @ ''}''"]
    by (simp add: spec_json_space_def option.map_comp comp_def)
  moreover have "Option.bind (spec_scan Outside [] (json_dumps_items (kv # kvs) @ ''}''))
      spec_members = Some (kv # kvs)"
    by (rule "3.IH") simp
  ultimately show ?case
    by (cases "spec_scan Outside [] (json_dumps_items (kv # kvs) @ ''}'')") simp_all
qed

lemma loads_dumps:
  "kvs \<noteq> [] \<Longrightarrow> spec_json_loads (json_dumps_dict kvs) = Some kvs"
  using loads_items [of kvs "[]"]
  by (cases "spec_scan Outside [] (json_dumps_items kvs @ ''}'')")
     (simp_all add: spec_json_loads_def json_dumps_dict_def spec_json_space_def)


text \<open>
  C8: for every query and every run, with or without an exception, the generator yields
  exactly one value: a line that ends with a newline and has no other newline, and
  that a JSON reader reads as one object with exactly the members \<open>query\<close> (the query as
  given), \<open>tool_used\<close> (one of "weather", "math", "llm") and \<open>result\<close>, in that order.
\<close>

theorem one_json_line:
  "\<exists>line. process_query_with_agent_streaming ex q = [line @ [CHR 0x0A]]
      \<and> CHR 0x0A \<notin> set line
      \<and> spec_json_loads line =
            Some [(''query'', q), (''tool_used'', resp_tool_used (report ex q)),
                  (''result'', resp_result (report ex q))]
      \<and> resp_tool_used (report ex q) \<in> {''weather'', ''math'', ''llm''}"
proof (intro exI conjI)
  show "process_query_with_agent_streaming ex q =
     [json_dumps_dict
        [(''query'', q), (''tool_used'', resp_tool_used (report ex q)),
         (''result'', resp_result (report ex q))] @ [CHR 0x0A]]"
    by (simp add: process_query_with_agent_streaming_def Let_def report_query)
  show "CHR 0x0A \<notin> set (json_dumps_dict
        [(''query'', q), (''tool_used'', resp_tool_used (report ex q)),
         (''result'', resp_result (report ex q))])"
    by (rule json_dumps_dict_no_newline)
  show "spec_json_loads (json_dumps_dict
        [(''query'', q), (''tool_used'', resp_tool_used (report ex q)),
         (''result'', resp_result (report ex q))]) =
      Some [(''query'', q), (''tool_used'', resp_tool_used (report ex q)),
            (''result'', resp_result (report ex q))]"
    by (rule loads_dumps) simp
  show "resp_tool_used (report ex q) \<in> {''weather'', ''math'', ''llm''}"
    using report_tool_used_tag [of ex q] by auto
qed

theorem one_json_line_witness:
  "process_query_with_agent_streaming math_then_failure ''2 + 2'' =
     [''{'' @ [CHR 0x22] @ ''query'' @ [CHR 0x22] @ '': '' @ [CHR 0x22] @ ''2 + 2'' @ [CHR 0x22]
      @ '', '' @ [CHR 0x22] @ ''tool_used'' @ [CHR 0x22] @ '': '' @ [CHR 0x22] @ ''llm'' @ [CHR 0x22]
      @ '', '' @ [CHR 0x22] @ ''result'' @ [CHR 0x22] @ '': '' @ [CHR 0x22]
      @ ''An error occurred during agent execution: model client failed'' @ [CHR 0x22]
      @ ''}'' @ [CHR 0x0A]]
   \<and> spec_json_loads
        (''{'' @ [CHR 0x22] @ ''query'' @ [CHR 0x22] @ '': '' @ [CHR 0x22] @ ''2 + 2'' @ [CHR 0x22]
         @ '', '' @ [CHR 0x22] @ ''tool_used'' @ [CHR 0x22] @ '': '' @ [CHR 0x22] @ ''llm'' @ [CHR 0x22]
         @ '', '' @ [CHR 0x22] @ ''result'' @ [CHR 0x22] @ '': '' @ [CHR 0x22]
         @ ''An error occurred during agent execution: model client failed'' @ [CHR 0x22]
         @ ''}'')
       = Some [(''query'', ''2 + 2''), (''tool_used'', ''llm''),
               (''result'', ''An error occurred during agent execution: model client failed'')]"
proof -
  have t: "resp_tool_used (report math_then_failure ''2 + 2'') = ''llm''"
    by (simp add: report_tool_used math_then_failure_def action_chunk_def)
  have r: "resp_result (report math_then_failure ''2 + 2'')
      = ''An error occurred during agent execution: model client failed''"
    by (simp add: report_result math_then_failure_def action_chunk_def)
  have p: "process_query_with_agent_streaming math_then_failure ''2 + 2'' =
     [(''{'' @ [CHR 0x22] @ ''query'' @ [CHR 0x22] @ '': '' @ [CHR 0x22] @ ''2 + 2'' @ [CHR 0x22]
      @ '', '' @ [CHR 0x22] @ ''tool_used'' @ [CHR 0x22] @ '': '' @ [CHR 0x22] @ ''llm'' @ [CHR 0x22]
      @ '', '' @ [CHR 0x22] @ ''result'' @ [CHR 0x22] @ '': '' @ [CHR 0x22]
      @ ''An error occurred during agent execution: model client failed'' @ [CHR 0x22]
      @ ''}'') @ [CHR 0x0A]]"
    by (simp add: process_query_with_agent_streaming_def Let_def report_query t r
          json_dumps_dict_def json_dumps_str_def json_escape_char_def)
  from one_json_line [of math_then_failure "''2 + 2''"] obtain line where
    l: "process_query_with_agent_streaming math_then_failure ''2 + 2'' = [line @ [CHR 0x0A]]"
    and d: "spec_json_loads line =
            Some [(''query'', ''2 + 2''),
                  (''tool_used'', resp_tool_used (report math_then_failure ''2 + 2'')),
                  (''result'', resp_result (report math_then_failure ''2 + 2''))]"
    by blast
  from l p have "line = ''{'' @ [CHR 0x22] @ ''query'' @ [CHR 0x22] @ '': '' @ [CHR 0x22] @ ''2 + 2'' @ [CHR 0x22]
      @ '', '' @ [CHR 0x22] @ ''tool_used'' @ [CHR 0x22] @ '': '' @ [CHR 0x22] @ ''llm'' @ [CHR 0x22]
      @ '', '' @ [CHR 0x22] @ ''result'' @ [CHR 0x22] @ '': '' @ [CHR 0x22]
      @ ''An error occurred during agent execution: model client failed'' @ [CHR 0x22]
      @ ''}''"
    by simp
  with d t r p show ?thesis by simp
qed

section \<open>Properties of the weather lookup\<close>

lemma spec_incorporates_append: "spec_incorporates m (a @ m @ b)"
proof (induction a)
  case Nil
  have "take (length m) (m @ b) = m" by simp
  then show ?case by (cases "m @ b") auto
next
  case (Cons c a)
  then show ?case by simp
qed

lemma get_weather_returns:
  "\<exists>text. fst (get_weather repr requests_get env_value location_arg) = Inr text"
  by (simp add: get_weather_def Let_def split: sum.split weather_exn.split)

lemma get_weather_configured:
  assumes "OPENWEATHER_API_KEY env_value \<noteq> []"
    and "OPENWEATHER_API_KEY env_value \<noteq> ''YOUR_OPENWEATHER_API_KEY''"
  shows "get_weather repr requests_get env_value location_arg =
     (case weather_try_block repr requests_get
             (case location_arg of None \<Rightarrow> ''Chicago'' | Some l \<Rightarrow> l)
             \<lparr>url = OPENWEATHER_BASE_URL,
              params = [(''q'', case location_arg of None \<Rightarrow> ''Chicago'' | Some l \<Rightarrow> l),
                        (''appid'', OPENWEATHER_API_KEY env_value), (''units'', ''metric'')]\<rparr> of
        Inr text \<Rightarrow> Inr text
      | Inl (RequestException e) \<Rightarrow>
          Inr (''Error fetching weather for ''
               @ (case location_arg of None \<Rightarrow> ''Chicago'' | Some l \<Rightarrow> l)
               @ '': A network error occurred: '' @ e)
      | Inl (OtherError e) \<Rightarrow>
          Inr (''An unexpected error occurred while processing weather data: '' @ e),
      [\<lparr>url = OPENWEATHER_BASE_URL,
        params = [(''q'', case location_arg of None \<Rightarrow> ''Chicago'' | Some l \<Rightarrow> l),
                  (''appid'', OPENWEATHER_API_KEY env_value), (''units'', ''metric'')]\<rparr>])"
  using assms by (simp add: get_weather_def Let_def)

lemma describe_weather_error_code:
  assumes "\<not> eq_200 (case map_of items ''cod'' of Some c \<Rightarrow> c | None \<Rightarrow> JNull)"
  shows "describe_weather repr location (JObj items) =
     Inr (''Could not retrieve weather for '' @ location @ '': ''
          @ (case map_of items ''message'' of
               Some m \<Rightarrow> py_str repr m
             | None \<Rightarrow> ''Unknown error from API''))"
  using assms by (simp add: describe_weather_def py_get_def py_str_def split: option.split)

lemma show_int_404: "show_int 404 = ''404''"
  by code_simp

text \<open>
  C5: on a non-success HTTP status, or on a provider-level error code in a successful
  response, the lookup should return an error string that incorporates the provider's
  message when there is one. The code does so on the second path only. At the
  provider's answer for an unknown city (status 404, the message "city not found" in
  the body) it returns the description of the HTTP error, which holds the status line
  and the request URL, and not the provider's message; the same body under status 200
  gives "Could not retrieve weather for Atlantis: city not found".
\<close>

theorem http_error_drops_provider_message:
  "status_code not_found_response = 404
   \<and> spec_provider_message not_found_response = Some ''city not found''
   \<and> fst (get_weather plain_repr provider_not_found (Some ''secret'') (Some ''Atlantis''))
       = Inr ''Error fetching weather for Atlantis: A network error occurred: 404 Client Error: Not Found for url: http://api.openweathermap.org/data/2.5/weather?q=Atlantis&appid=secret&units=metric''
   \<and> \<not> spec_incorporates ''city not found''
         ''Error fetching weather for Atlantis: A network error occurred: 404 Client Error: Not Found for url: http://api.openweathermap.org/data/2.5/weather?q=Atlantis&appid=secret&units=metric''
   \<and> fst (get_weather plain_repr provider_error_code (Some ''secret'') (Some ''Atlantis''))
       = Inr ''Could not retrieve weather for Atlantis: city not found''
   \<and> spec_incorporates ''city not found''
         ''Could not retrieve weather for Atlantis: city not found''"
  by (simp add: not_found_response_def spec_provider_message_def provider_not_found_def
        provider_error_code_def get_weather_def OPENWEATHER_API_KEY_def weather_try_block_def
        raise_for_status_def describe_weather_def py_get_def py_str_def eq_200_def
        show_int_404 Let_def)

text \<open>
  C6, as stated, at the empty string with a configured key: the request carries the
  empty string as the location, not "Chicago", and the two calls differ.
\<close>

theorem empty_location_counterexample:
  "snd (get_weather plain_repr offline (Some ''secret'') (Some []))
     = [\<lparr>url = OPENWEATHER_BASE_URL,
         params = [(''q'', []), (''appid'', ''secret''), (''units'', ''metric'')]\<rparr>]
   \<and> get_weather plain_repr offline (Some ''secret'') (Some [])
       \<noteq> get_weather plain_repr offline (Some ''secret'') (Some ''Chicago'')"
  by (simp add: get_weather_def OPENWEATHER_API_KEY_def Let_def)

text \<open>
  C6, amended: a call without the location argument behaves as the call with the
  location "Chicago"; a call with the empty string does not use the default: with a
  configured key, the empty string is what the request carries as the location.
\<close>

theorem default_location:
  "get_weather repr requests_get env_value None
     = get_weather repr requests_get env_value (Some ''Chicago'')
   \<and> (OPENWEATHER_API_KEY env_value \<noteq> []
        \<and> OPENWEATHER_API_KEY env_value \<noteq> ''YOUR_OPENWEATHER_API_KEY'' \<longrightarrow>
      snd (get_weather repr requests_get env_value (Some []))
        = [\<lparr>url = OPENWEATHER_BASE_URL,
            params = [(''q'', []), (''appid'', OPENWEATHER_API_KEY env_value),
                      (''units'', ''metric'')]\<rparr>])"
  by (simp add: get_weather_def Let_def)

theorem default_location_witness:
  "get_weather plain_repr provider_not_found (Some ''secret'') None
     = get_weather plain_repr provider_not_found (Some ''secret'') (Some ''Chicago'')
   \<and> snd (get_weather plain_repr provider_not_found (Some ''secret'') (Some []))
        = [\<lparr>url = OPENWEATHER_BASE_URL,
            params = [(''q'', []), (''appid'', ''secret''), (''units'', ''metric'')]\<rparr>]"
  using default_location [where repr = plain_repr and requests_get = provider_not_found
          and env_value = "Some ''secret''"]
  by (simp add: OPENWEATHER_API_KEY_def)

text \<open>
  C7: for every location, when the API key is unset, empty or equal to the placeholder,
  the function returns the key-configuration notice and sends no request.
\<close>

theorem unconfigured_key_no_request:
  "env_value = None \<or> env_value = Some [] \<or> env_value = Some ''YOUR_OPENWEATHER_API_KEY'' \<Longrightarrow>
     get_weather repr requests_get env_value location_arg =
       (Inr ''Weather API key not configured. Please set OPENWEATHER_API_KEY in your environment.'',
        [])"
  by (auto simp add: get_weather_def OPENWEATHER_API_KEY_def)

theorem unconfigured_key_no_request_witness:
  "get_weather plain_repr provider_not_found None (Some ''Paris'') =
     (Inr ''Weather API key not configured. Please set OPENWEATHER_API_KEY in your environment.'',
      [])
   \<and> snd (get_weather plain_repr provider_not_found (Some ''YOUR_OPENWEATHER_API_KEY'') None) = []"
  using unconfigured_key_no_request [where env_value = None and repr = plain_repr
          and requests_get = provider_not_found and location_arg = "Some ''Paris''"]
    unconfigured_key_no_request [where env_value = "Some ''YOUR_OPENWEATHER_API_KEY''"
          and repr = plain_repr and requests_get = provider_not_found and location_arg = None]
  by simp

section \<open>Properties of the arithmetic evaluator\<close>

subsection \<open>Rounding to binary64\<close>

lemma two_powi_pos: "0 < (2::rat) powi e"
  by (simp add: power_int_def)

lemma two_powi_mono: "a \<le> b \<Longrightarrow> (2::rat) powi a \<le> 2 powi b"
  by (rule power_int_increasing) simp_all

lemma two_powi_less_imp: "(2::rat) powi a < 2 powi b \<Longrightarrow> a < b"
  using two_powi_mono [of b a] by (cases "a < b") auto

lemma int_bitlen_rat:
  assumes "0 < p"
  shows "(2::rat) powi (bitlen p - 1) \<le> of_int p \<and> of_int p < (2::rat) powi (bitlen p)"
proof -
  from bitlen_bounds [OF assms]
  have b: "2 ^ nat (bitlen p - 1) \<le> p" "p < 2 ^ nat (bitlen p)" by simp_all
  have pos: "1 \<le> bitlen p"
    using assms bitlen_eq_zero_iff [of p] bitlen_nonneg [of p] by (cases "bitlen p = 0") auto
  have "(2::rat) powi (bitlen p - 1) = of_int (2 ^ nat (bitlen p - 1))"
    using pos by (simp add: power_int_def)
  moreover have "(2::rat) powi (bitlen p) = of_int (2 ^ nat (bitlen p))"
    using pos by (simp add: power_int_def)
  ultimately show ?thesis
    using b by (metis of_int_le_iff of_int_less_iff)
qed

lemma floor_log2_bounds:
  assumes "0 < x"
  shows "2 powi (floor_log2 x) \<le> x \<and> x < 2 powi (floor_log2 x + 1)"
proof -
  obtain p q where pq: "quotient_of x = (p, q)" by (cases "quotient_of x")
  then have q: "0 < q" and x: "x = of_int p / of_int q"
    using quotient_of_denom_pos [OF pq] quotient_of_div [OF pq] by simp_all
  have p: "0 < p"
    using assms q x by (simp add: zero_less_divide_iff)
  define e where "e = bitlen p - bitlen q"
  note bp = int_bitlen_rat [OF p] and bq = int_bitlen_rat [OF q]
  have qpos: "(0::rat) < of_int q" using q by simp
  have up: "x < 2 powi (e + 1)"
  proof -
    have "x < 2 powi (bitlen p) / of_int q"
      unfolding x using bp qpos by (simp add: divide_strict_right_mono)
    also have "\<dots> \<le> 2 powi (bitlen p) / 2 powi (bitlen q - 1)"
      using bq two_powi_pos [of "bitlen q - 1"] two_powi_pos [of "bitlen p"]
      by (simp add: frac_le)
    also have "\<dots> = 2 powi (bitlen p - (bitlen q - 1))"
      by (rule power_int_diff [symmetric]) simp
    also have "bitlen p - (bitlen q - 1) = e + 1"
      by (simp add: e_def)
    finally show ?thesis .
  qed
  have low: "2 powi (e - 1) \<le> x"
  proof -
    have "(2::rat) powi (e - 1) = 2 powi (bitlen p - 1) / 2 powi (bitlen q)"
      by (simp add: e_def power_int_diff)
    also have "\<dots> \<le> of_int p / 2 powi (bitlen q)"
      using bp two_powi_pos [of "bitlen q"] by (simp add: divide_right_mono)
    also have "\<dots> \<le> of_int p / of_int q"
      using bq qpos p by (simp add: frac_le)
    finally show ?thesis by (simp add: x)
  qed
  show ?thesis
  proof (cases "2 powi e \<le> x")
    case True
    then have "floor_log2 x = e" by (simp add: floor_log2_def pq e_def)
    with True up show ?thesis by simp
  next
    case False
    then have "floor_log2 x = e - 1" by (simp add: floor_log2_def pq e_def)
    with False low show ?thesis by simp
  qed
qed

lemma round_half_even_of_int: "round_half_even (of_int n) = n"
  by (simp add: round_half_even_def Let_def)

text \<open>
  A number with at most 53 significant bits and an exponent in the range of binary64
  is a float: rounding leaves it as it is.
\<close>

lemma round_to_double_exact:
  assumes m: "\<bar>m\<bar> < 2 ^ 53" and k: "- 1074 \<le> k" "k \<le> 971"
  shows "round_to_double (of_int m * 2 powi k) = Finite (of_int m * 2 powi k)"
proof (cases "m = 0")
  case True
  then show ?thesis by (simp add: round_to_double_def)
next
  case False
  define x :: rat where "x = of_int m * 2 powi k"
  define a where "a = \<bar>x\<bar>"
  have a: "a = of_int \<bar>m\<bar> * 2 powi k"
    using two_powi_pos [of k] by (simp add: a_def x_def abs_mult)
  have apos: "0 < a"
    using False two_powi_pos [of k] by (simp add: a)
  have xnz: "x \<noteq> 0" using apos by (auto simp: a_def)
  have "(of_int \<bar>m\<bar> :: rat) < 2 ^ 53"
    using m by (metis of_int_less_iff of_int_numeral of_int_power)
  then have "a < 2 ^ 53 * 2 powi k"
    unfolding a using two_powi_pos [of k] by (simp add: mult_strict_right_mono)
  also have "(2::rat) ^ 53 * 2 powi k = 2 powi (53 + k)"
    by (simp add: power_int_add)
  finally have alt: "a < 2 powi (53 + k)" .
  define e where "e = max (floor_log2 a) (- 1022)"
  have "2 powi (floor_log2 a) < (2::rat) powi (53 + k)"
    using floor_log2_bounds [OF apos] alt by simp
  then have "floor_log2 a < 53 + k" by (rule two_powi_less_imp)
  then have e: "e \<le> 52 + k" using k by (simp add: e_def)
  define j where "j = nat (k - e + 52)"
  have j: "k - (e - 52) = int j" using e by (simp add: j_def)
  have quot: "a / 2 powi (e - 52) = of_int (\<bar>m\<bar> * 2 ^ j)"
  proof -
    have "a / 2 powi (e - 52) = of_int \<bar>m\<bar> * (2 powi k / 2 powi (e - 52))"
      by (simp add: a)
    also have "(2::rat) powi k / 2 powi (e - 52) = 2 powi (k - (e - 52))"
      by (rule power_int_diff [symmetric]) simp
    also have "\<dots> = 2 ^ j"
      unfolding j by (simp add: power_int_def)
    finally show ?thesis by simp
  qed
  have y: "of_int (round_half_even (a / 2 powi (e - 52))) * 2 powi (e - 52) = a"
  proof -
    have "of_int (round_half_even (a / 2 powi (e - 52))) * 2 powi (e - 52)
        = (a / 2 powi (e - 52)) * 2 powi (e - 52)"
      unfolding quot round_half_even_of_int ..
    also have "\<dots> = a"
      using two_powi_pos [of "e - 52"] by simp
    finally show ?thesis .
  qed
  have "(2::rat) powi (53 + k) \<le> 2 powi 1024"
    using k by (intro two_powi_mono) simp
  with alt have "a < 2 powi 1024" by simp
  then have small: "\<not> 2 ^ 1024 \<le> a" by (simp add: power_int_def)
  have "round_to_double x = Finite (if 0 < x then a else - a)"
    using xnz small y
    by (simp add: round_to_double_def Let_def a_def [symmetric] e_def [symmetric])
  also have "(if 0 < x then a else - a) = x"
    by (simp add: a_def)
  finally show ?thesis by (simp add: x_def)
qed

lemma round_to_double_of_int:
  "\<bar>n\<bar> < 2 ^ 53 \<Longrightarrow> round_to_double (of_int n) = Finite (of_int n)"
  using round_to_double_exact [of n 0] by simp


subsection \<open>Concrete tokens\<close>

lemma py_float_10: "py_float ''10'' = Some (Finite 10)"
proof -
  have p: "parse_decimal ''10'' = Some 10" by code_simp
  have r: "round_to_double 10 = Finite 10" using round_to_double_of_int [of 10] by simp
  show ?thesis by (simp add: py_float_def to_ascii_def ascii_isspace_def p r)
qed

lemma split_10_plus_5: "py_split (py_strip ''10 + 5'') = [''10'', ''+'', ''5'']"
  by code_simp

lemma bitlen_1: "bitlen 1 = 1"
  by (simp add: compute_bitlen)

lemma bitlen_big: "bitlen 9007199254740993 = 54"
  by (simp add: compute_bitlen)

lemma floor_log2_big: "floor_log2 9007199254740993 = 53"
  by (simp add: floor_log2_def bitlen_big bitlen_1)

lemma floor_half_big: "\<lfloor>(9007199254740993 :: rat) / 2\<rfloor> = 4503599627370496"
  by (simp add: floor_eq_iff)

lemma round_half_even_big: "round_half_even (9007199254740993 / 2) = 4503599627370496"
  by (simp add: round_half_even_def Let_def floor_half_big)

lemma round_big: "round_to_double 9007199254740993 = Finite 9007199254740992"
  by (simp add: round_to_double_def floor_log2_big round_half_even_big Let_def)


subsection \<open>The result of the evaluator\<close>

lemma typed_result:
  "(case float_to_int (Finite r) of
      Inl e \<Rightarrow> Inl e
    | Inr n \<Rightarrow> if float_eq_int (Finite r) n then Inr (PyInt n) else Inr (PyFloat (Finite r)))
   = Inr (spec_typed r)"
proof (cases "\<exists>n. r = of_int n")
  case True
  then obtain n where "r = of_int n" ..
  then show ?thesis
    by (simp add: float_to_int_def float_eq_int_def spec_typed_def)
next
  case False
  then have "r \<noteq> of_int \<lfloor>r\<rfloor>" "r \<noteq> of_int \<lceil>r\<rceil>" by blast+
  with False show ?thesis
    by (simp add: float_to_int_def float_eq_int_def spec_typed_def)
qed

lemma operation_finite:
  assumes "op_char = ''+'' \<or> op_char = ''-'' \<or> op_char = ''*'' \<or> op_char = ''/''"
    and "op_char = ''/'' \<longrightarrow> y \<noteq> 0"
  shows "\<exists>operation. ops op_char = Some operation
           \<and> operation (Finite x) (Finite y) = Inr (round_to_double (spec_apply op_char x y))"
  using assms
  by (auto simp add: ops_def spec_apply_def float_add_def float_sub_def float_neg_def
        float_mul_def float_truediv_def)

lemma try_block_finite:
  assumes "py_float p0 = Some (Finite x)" and "py_float p2 = Some (Finite y)"
    and "p1 = ''+'' \<or> p1 = ''-'' \<or> p1 = ''*'' \<or> p1 = ''/''"
    and "p1 = ''/'' \<longrightarrow> y \<noteq> 0"
    and "round_to_double (spec_apply p1 x y) = Finite r"
  shows "try_block p0 p1 p2 = Inr (spec_typed r)"
proof -
  from operation_finite [OF assms(3,4)] obtain operation where
    "ops p1 = Some operation"
    "operation (Finite x) (Finite y) = Inr (round_to_double (spec_apply p1 x y))"
    by blast
  then show ?thesis
    using typed_result [of r] by (simp add: try_block_def assms(1,2,5))
qed

lemma evaluate_rounded:
  assumes "py_split (py_strip s) = [p0, p1, p2]"
    and "py_float p0 = Some (Finite x)" and "py_float p2 = Some (Finite y)"
    and "p1 = ''+'' \<or> p1 = ''-'' \<or> p1 = ''*'' \<or> p1 = ''/''"
    and "p1 = ''/'' \<longrightarrow> y \<noteq> 0"
    and "round_to_double (spec_apply p1 x y) = Finite r"
  shows "evaluate_math_expression s = Inr (spec_typed r)"
  by (simp add: evaluate_math_expression_def assms(1) try_block_finite [OF assms(2-6)])

lemma evaluate_exact:
  assumes "py_split (py_strip s) = [p0, p1, p2]"
    and "py_float p0 = Some (Finite x)" and "py_float p2 = Some (Finite y)"
    and "p1 = ''+'' \<or> p1 = ''-'' \<or> p1 = ''*'' \<or> p1 = ''/''"
    and "p1 = ''/'' \<longrightarrow> y \<noteq> 0"
    and "spec_apply p1 x y = of_int m * 2 powi k"
    and "\<bar>m\<bar> < 2 ^ 53" and "- 1074 \<le> k" and "k \<le> 971"
  shows "evaluate_math_expression s = Inr (spec_typed (spec_apply p1 x y))"
proof -
  have "round_to_double (spec_apply p1 x y) = Finite (spec_apply p1 x y)"
    unfolding assms(6) by (rule round_to_double_exact [OF assms(7-9)])
  from evaluate_rounded [OF assms(1-5) this] show ?thesis .
qed

lemma py_float_5: "py_float ''5'' = Some (Finite 5)"
proof -
  have p: "parse_decimal ''5'' = Some 5" by code_simp
  have r: "round_to_double 5 = Finite 5" using round_to_double_of_int [of 5] by simp
  show ?thesis by (simp add: py_float_def to_ascii_def ascii_isspace_def p r)
qed

lemma py_float_4: "py_float ''4'' = Some (Finite 4)"
proof -
  have p: "parse_decimal ''4'' = Some 4" by code_simp
  have r: "round_to_double 4 = Finite 4" using round_to_double_of_int [of 4] by simp
  show ?thesis by (simp add: py_float_def to_ascii_def ascii_isspace_def p r)
qed

lemma py_float_20: "py_float ''20'' = Some (Finite 20)"
proof -
  have p: "parse_decimal ''20'' = Some 20" by code_simp
  have r: "round_to_double 20 = Finite 20" using round_to_double_of_int [of 20] by simp
  show ?thesis by (simp add: py_float_def to_ascii_def ascii_isspace_def p r)
qed

lemma split_10_div_4: "py_split (py_strip ''10 / 4'') = [''10'', ''/'', ''4'']"
  by code_simp

lemma split_20_div_4: "py_split (py_strip ''20 / 4'') = [''20'', ''/'', ''4'']"
  by code_simp

lemma evaluate_10_plus_5: "evaluate_math_expression ''10 + 5'' = Inr (PyInt 15)"
  using evaluate_exact [OF split_10_plus_5 py_float_10 py_float_5, of 15 0]
  by (simp add: spec_apply_def spec_typed_def)

lemma floor_5_2: "\<lfloor>(5 :: rat) / 2\<rfloor> = 2"
  by (simp add: floor_eq_iff)

lemma evaluate_10_div_4: "evaluate_math_expression ''10 / 4'' = Inr (PyFloat (Finite (5 / 2)))"
  using evaluate_exact [OF split_10_div_4 py_float_10 py_float_4, of 5 "- 1"]
  by (simp add: spec_apply_def spec_typed_def floor_5_2)

lemma evaluate_20_div_4: "evaluate_math_expression ''20 / 4'' = Inr (PyInt 5)"
  using evaluate_exact [OF split_20_div_4 py_float_20 py_float_4, of 5 0]
  by (simp add: spec_apply_def spec_typed_def)


lemma py_float_0: "py_float ''0'' = Some (Finite 0)"
proof -
  have p: "parse_decimal ''0'' = Some 0" by code_simp
  show ?thesis by (simp add: py_float_def to_ascii_def ascii_isspace_def p round_to_double_def)
qed

lemma py_float_big: "py_float ''9007199254740993'' = Some (Finite 9007199254740992)"
proof -
  have p: "parse_decimal ''9007199254740993'' = Some 9007199254740993" by code_simp
  show ?thesis by (simp add: py_float_def to_ascii_def ascii_isspace_def p round_big)
qed

lemma split_big_plus_0:
  "py_split (py_strip ''9007199254740993 + 0'') = [''9007199254740993'', ''+'', ''0'']"
  by code_simp

text \<open>
  C3, as stated, at "9007199254740993 + 0": three tokens, the outer ones numerals, the
  operator +. The exact result is the integer 9007199254740993; the function returns
  the integer 9007199254740992, since the first operand is rounded to a float.
\<close>

theorem exact_result_counterexample:
  "py_split (py_strip ''9007199254740993 + 0'') = [''9007199254740993'', ''+'', ''0'']
   \<and> parse_decimal ''9007199254740993'' = Some 9007199254740993
   \<and> parse_decimal ''0'' = Some 0
   \<and> spec_typed (spec_apply ''+'' 9007199254740993 0) = PyInt 9007199254740993
   \<and> evaluate_math_expression ''9007199254740993 + 0'' = Inr (PyInt 9007199254740992)"
proof -
  have p1: "parse_decimal ''9007199254740993'' = Some 9007199254740993" by code_simp
  have p2: "parse_decimal ''0'' = Some 0" by code_simp
  have r: "round_to_double (spec_apply ''+'' 9007199254740992 0) = Finite 9007199254740992"
    using round_to_double_exact [of 4503599627370496 1] by (simp add: spec_apply_def)
  have "evaluate_math_expression ''9007199254740993 + 0'' = Inr (spec_typed 9007199254740992)"
    by (rule evaluate_rounded [OF split_big_plus_0 py_float_big py_float_0 _ _ r]) simp_all
  then show ?thesis
    by (simp add: split_big_plus_0 p1 p2 spec_apply_def spec_typed_def)
qed

text \<open>
  C3, amended: for every input of exactly three white-space separated tokens whose
  outer tokens parse to finite floats \<open>x\<close> and \<open>y\<close>, whose middle token is one of +, -, *,
  / and whose \<open>y\<close> is not zero when the operator is /, the function returns the binary64
  rounding (to nearest, ties to even) of the operator applied to \<open>x\<close> and \<open>y\<close>, whenever
  that rounding is finite, as an integer when it has no fractional part and as a float
  otherwise. This is the exact mathematical result whenever that result is a binary64
  number (at most 53 significant bits, exponent in range); in particular "10 + 5" gives
  the integer 15, "10 / 4" the float 2.5 and "20 / 4" the integer 5.
\<close>

theorem evaluate_float_result:
  "py_split (py_strip s) = [p0, p1, p2] \<Longrightarrow>
   py_float p0 = Some (Finite x) \<Longrightarrow>
   py_float p2 = Some (Finite y) \<Longrightarrow>
   p1 = ''+'' \<or> p1 = ''-'' \<or> p1 = ''*'' \<or> p1 = ''/'' \<Longrightarrow>
   (p1 = ''/'' \<longrightarrow> y \<noteq> 0) \<Longrightarrow>
     (\<forall>r. round_to_double (spec_apply p1 x y) = Finite r \<longrightarrow>
          evaluate_math_expression s = Inr (spec_typed r))
     \<and> (\<forall>m k. spec_apply p1 x y = of_int m * 2 powi k
               \<and> \<bar>m\<bar> < 2 ^ 53 \<and> - 1074 \<le> k \<and> k \<le> 971 \<longrightarrow>
          evaluate_math_expression s = Inr (spec_typed (spec_apply p1 x y)))
     \<and> evaluate_math_expression ''10 + 5'' = Inr (PyInt 15)
     \<and> evaluate_math_expression ''10 / 4'' = Inr (PyFloat (Finite (5 / 2)))
     \<and> evaluate_math_expression ''20 / 4'' = Inr (PyInt 5)"
  using evaluate_rounded [of s p0 p1 p2 x y] evaluate_exact [of s p0 p1 p2 x y]
    evaluate_10_plus_5 evaluate_10_div_4 evaluate_20_div_4
  by blast

theorem evaluate_float_result_witness:
  "py_split (py_strip ''10 / 4'') = [''10'', ''/'', ''4'']
   \<and> py_float ''10'' = Some (Finite 10)
   \<and> py_float ''4'' = Some (Finite 4)
   \<and> spec_apply ''/'' 10 4 = of_int 5 * 2 powi (- 1)
   \<and> evaluate_math_expression ''10 / 4'' = Inr (spec_typed (spec_apply ''/'' 10 4))
   \<and> spec_typed (spec_apply ''/'' 10 4) = PyFloat (Finite (5 / 2))"
proof -
  have e: "spec_apply ''/'' 10 4 = of_int 5 * 2 powi (- 1)"
    by (simp add: spec_apply_def)
  have d1: "''/'' = ''+'' \<or> ''/'' = ''-'' \<or> ''/'' = ''*'' \<or> ''/'' = ''/''" by simp
  have d2: "''/'' = ''/'' \<longrightarrow> (4 :: rat) \<noteq> 0" by simp
  have "\<forall>m k. spec_apply ''/'' 10 4 = of_int m * 2 powi k
               \<and> \<bar>m\<bar> < 2 ^ 53 \<and> - 1074 \<le> k \<and> k \<le> 971 \<longrightarrow>
          evaluate_math_expression ''10 / 4'' = Inr (spec_typed (spec_apply ''/'' 10 4))"
    using evaluate_float_result [OF split_10_div_4 py_float_10 py_float_4 d1 d2] by blast
  then have "spec_apply ''/'' 10 4 = of_int 5 * 2 powi (- 1)
               \<and> \<bar>5 :: int\<bar> < 2 ^ 53 \<and> - 1074 \<le> (- 1 :: int) \<and> (- 1 :: int) \<le> 971 \<longrightarrow>
          evaluate_math_expression ''10 / 4'' = Inr (spec_typed (spec_apply ''/'' 10 4))"
    by blast
  with e have ev: "evaluate_math_expression ''10 / 4'' = Inr (spec_typed (spec_apply ''/'' 10 4))"
    by simp
  have ty: "spec_typed (spec_apply ''/'' 10 4) = PyFloat (Finite (5 / 2))"
    by (simp add: spec_apply_def spec_typed_def floor_5_2)
  show ?thesis
    by (intro conjI) (rule split_10_div_4 py_float_10 py_float_4 e ev ty)+
qed


subsection \<open>Errors of the evaluator\<close>

lemma evaluate_returns: "\<exists>v. evaluate_math_expression s = Inr v"
  by (simp add: evaluate_math_expression_def split: list.split sum.split math_exn.split)

lemma evaluate_bad_format:
  "length (py_split (py_strip s)) \<noteq> 3 \<Longrightarrow>
     evaluate_math_expression s = Inr (PyStr invalid_format_message)"
  by (auto simp add: evaluate_math_expression_def split: list.split)

lemma evaluate_bad_number:
  "py_split (py_strip s) = [p0, p1, p2] \<Longrightarrow> py_float p0 = None \<or> py_float p2 = None \<Longrightarrow>
     evaluate_math_expression s = Inr (PyStr invalid_numbers_message)"
  by (auto simp add: evaluate_math_expression_def try_block_def split: option.split)

lemma evaluate_bad_operator:
  "py_split (py_strip s) = [p0, p1, p2] \<Longrightarrow> py_float p0 \<noteq> None \<Longrightarrow> py_float p2 \<noteq> None \<Longrightarrow>
   p1 \<noteq> ''+'' \<Longrightarrow> p1 \<noteq> ''-'' \<Longrightarrow> p1 \<noteq> ''*'' \<Longrightarrow> p1 \<noteq> ''/'' \<Longrightarrow>
     evaluate_math_expression s = Inr (PyStr (unsupported_operator_message p1))"
  by (auto simp add: evaluate_math_expression_def try_block_def ops_def)

lemma evaluate_zero_divisor:
  "py_split (py_strip s) = [p0, ''/'', p2] \<Longrightarrow> py_float p0 \<noteq> None \<Longrightarrow>
   py_float p2 = Some (Finite 0) \<Longrightarrow>
     evaluate_math_expression s = Inr (PyStr ''Division by zero is not allowed.'')"
  by (auto simp add: evaluate_math_expression_def try_block_def ops_def float_truediv_def)

lemma py_float_7: "py_float ''7'' = Some (Finite 7)"
proof -
  have p: "parse_decimal ''7'' = Some 7" by code_simp
  have r: "round_to_double 7 = Finite 7" using round_to_double_of_int [of 7] by simp
  show ?thesis by (simp add: py_float_def to_ascii_def ascii_isspace_def p r)
qed

lemma py_float_2: "py_float ''2'' = Some (Finite 2)"
proof -
  have p: "parse_decimal ''2'' = Some 2" by code_simp
  have r: "round_to_double 2 = Finite 2" using round_to_double_of_int [of 2] by simp
  show ?thesis by (simp add: py_float_def to_ascii_def ascii_isspace_def p r)
qed

lemma py_float_abc: "py_float ''abc'' = None"
proof -
  have p: "parse_decimal ''abc'' = None" by code_simp
  have q: "parse_inf_or_nan ''abc'' = None" by code_simp
  show ?thesis by (simp add: py_float_def to_ascii_def ascii_isspace_def p q)
qed

lemma split_7_div_0: "py_split (py_strip ''7 / 0'') = [''7'', ''/'', ''0'']"
  by code_simp

lemma split_abc_plus_2: "py_split (py_strip ''abc + 2'') = [''abc'', ''+'', ''2'']"
  by code_simp

lemma split_5_pow_2: "py_split (py_strip ''5 ^ 2'') = [''5'', ''^'', ''2'']"
  by code_simp

lemma evaluate_7_div_0:
  "evaluate_math_expression ''7 / 0'' = Inr (PyStr ''Division by zero is not allowed.'')"
  by (rule evaluate_zero_divisor [OF split_7_div_0 _ py_float_0]) (simp add: py_float_7)

lemma evaluate_abc_plus_2:
  "evaluate_math_expression ''abc + 2'' = Inr (PyStr invalid_numbers_message)"
  by (rule evaluate_bad_number [OF split_abc_plus_2]) (simp add: py_float_abc)

lemma evaluate_5_pow_2:
  "evaluate_math_expression ''5 ^ 2'' = Inr (PyStr (unsupported_operator_message ''^''))"
  by (rule evaluate_bad_operator [OF split_5_pow_2]) (simp_all add: py_float_5 py_float_2)

text \<open>
  C4: for every input string the function returns a value and raises nothing; it
  returns an error string when the number of tokens is not 3, when one of the outer
  tokens is not a number, when the operator is not one of +, -, *, /, and when the
  divisor of a division is zero. "7 / 0" gives the division-by-zero string, "abc + 2"
  the invalid-numbers string, "5 ^ 2" the unsupported-operator string.
\<close>

theorem evaluate_error_strings:
  "(\<exists>v. evaluate_math_expression s = Inr v)
   \<and> (length (py_split (py_strip s)) \<noteq> 3 \<longrightarrow>
        evaluate_math_expression s = Inr (PyStr invalid_format_message))
   \<and> (py_split (py_strip s) = [p0, p1, p2] \<and> (py_float p0 = None \<or> py_float p2 = None) \<longrightarrow>
        evaluate_math_expression s = Inr (PyStr invalid_numbers_message))
   \<and> (py_split (py_strip s) = [p0, p1, p2] \<and> py_float p0 \<noteq> None \<and> py_float p2 \<noteq> None
        \<and> p1 \<noteq> ''+'' \<and> p1 \<noteq> ''-'' \<and> p1 \<noteq> ''*'' \<and> p1 \<noteq> ''/'' \<longrightarrow>
        evaluate_math_expression s = Inr (PyStr (unsupported_operator_message p1)))
   \<and> (py_split (py_strip s) = [p0, ''/'', p2] \<and> py_float p0 \<noteq> None
        \<and> py_float p2 = Some (Finite 0) \<longrightarrow>
        evaluate_math_expression s = Inr (PyStr ''Division by zero is not allowed.''))
   \<and> evaluate_math_expression ''7 / 0'' = Inr (PyStr ''Division by zero is not allowed.'')
   \<and> evaluate_math_expression ''abc + 2'' = Inr (PyStr invalid_numbers_message)
   \<and> evaluate_math_expression ''5 ^ 2'' = Inr (PyStr (unsupported_operator_message ''^''))"
  using evaluate_returns [of s] evaluate_bad_format [of s] evaluate_bad_number [of s p0 p1 p2]
    evaluate_bad_operator [of s p0 p1 p2] evaluate_zero_divisor [of s p0 p2]
    evaluate_7_div_0 evaluate_abc_plus_2 evaluate_5_pow_2
  by blast

theorem evaluate_error_strings_witness:
  "length (py_split (py_strip ''1 +'')) \<noteq> 3
   \<and> evaluate_math_expression ''1 +'' = Inr (PyStr invalid_format_message)
   \<and> py_split (py_strip ''7 / 0'') = [''7'', ''/'', ''0'']
   \<and> py_float ''7'' \<noteq> None \<and> py_float ''0'' = Some (Finite 0)
   \<and> evaluate_math_expression ''7 / 0'' = Inr (PyStr ''Division by zero is not allowed.'')"
proof -
  have l: "py_split (py_strip ''1 +'') = [''1'', ''+'']" by code_simp
  then have l3: "length (py_split (py_strip ''1 +'')) \<noteq> 3" by simp
  from evaluate_error_strings [of "''1 +''" "''1''" "''+''" "''''"] l3
  have a: "evaluate_math_expression ''1 +'' = Inr (PyStr invalid_format_message)" by blast
  have n: "py_float ''7'' \<noteq> None" by (simp add: py_float_7)
  from evaluate_error_strings [of "''7 / 0''" "''7''" "''/''" "''0''"]
  have b: "evaluate_math_expression ''7 / 0'' = Inr (PyStr ''Division by zero is not allowed.'')"
    by blast
  show ?thesis
    by (intro conjI) (rule l3 a split_7_div_0 n py_float_0 b)+
qed

end
